theory Spec2Isabelle
  imports Complex_Main
begin

section \<open>Python values shared by the three components\<close>

text \<open>
  Exceptions of the Python source are values: a function that can raise returns
  \<open>error + 'a\<close>, with \<open>Inl\<close> the exception. Python floats are modelled by \<open>real\<close>,
  player ids, turn indices and counts (all produced by \<open>range\<close> or \<open>len\<close>) by \<open>nat\<close>,
  other integers by \<open>int\<close>, strings by \<open>string\<close>.
\<close>

datatype error = KeyError | TypeError | ValueError | IndexError | AttributeError
  | ZeroDivisionError | FileNotFoundError | JSONDecodeError

text \<open>
  A Python dictionary is an association list with distinct keys, in insertion order:
  \<open>d[k] = v\<close> overwrites the entry in place or appends it, \<open>d[k]\<close> raises on a missing
  key, \<open>d.get(k, default)\<close> does not.
\<close>

fun dict_set :: "('k \<times> 'v) list \<Rightarrow> 'k \<Rightarrow> 'v \<Rightarrow> ('k \<times> 'v) list" where
  "dict_set [] k v = [(k, v)]"
| "dict_set ((k', v') # kvs) k v =
     (if k' = k then (k, v) # kvs else (k', v') # dict_set kvs k v)"

definition dict_item :: "('k \<times> 'v) list \<Rightarrow> 'k \<Rightarrow> error + 'v" where
  "dict_item d k = (case map_of d k of None \<Rightarrow> Inl KeyError | Some v \<Rightarrow> Inr v)"

definition dict_get :: "('k \<times> 'v) list \<Rightarrow> 'k \<Rightarrow> 'v \<Rightarrow> 'v" where
  "dict_get d k dflt = (case map_of d k of None \<Rightarrow> dflt | Some v \<Rightarrow> v)"

text \<open>\<open>str\<close> of an integer, as the f-strings of the source format it.\<close>

definition digit_char :: "nat \<Rightarrow> char" where
  "digit_char n = ''0123456789'' ! n"

fun str_nat :: "nat \<Rightarrow> string" where
  "str_nat n = (if n < 10 then [digit_char n] else str_nat (n div 10) @ [digit_char (n mod 10)])"

declare str_nat.simps [simp del]

definition str_int :: "int \<Rightarrow> string" where
  "str_int i = (if i < 0 then CHR ''-'' # str_nat (nat (- i)) else str_nat (nat i))"

text \<open>
  \<open>max(xs, default=d)\<close> on a list of numbers.
\<close>

fun py_max :: "real list \<Rightarrow> real \<Rightarrow> real" where
  "py_max [] dflt = dflt"
| "py_max [x] dflt = x"
| "py_max (x # y # ys) dflt = max x (py_max (y # ys) dflt)"

section \<open>The game state and the objects it refers to\<close>

text \<open>
  A player's position is a Python \<open>int\<close> on a racing track and a pair of \<open>int\<close>s on a
  grid.
\<close>

datatype position = Track int | Cell int int

text \<open>
  The state dictionary of \<open>initialize_game_state\<close> holds scalars and references to three
  nested dictionaries. \<open>state.copy()\<close> copies the references, so the nested dictionaries
  live in a heap, split by the type of their values, and \<open>player_positions\<close>,
  \<open>player_resources\<close> and \<open>player_scores\<close> of a state are addresses in it. The set
  \<open>eliminated_players\<close> is never changed after its creation and is held by value; the
  numeric array \<open>board\<close> is never read and is left out. \<open>can_collect_resource\<close> and
  \<open>can_attack\<close> are keys that \<open>get_valid_actions\<close> looks up with a default; \<open>None\<close> is the
  absent key.
\<close>

record heap =
  pos_objs :: "nat \<Rightarrow> (nat \<times> position) list"
  num_objs :: "nat \<Rightarrow> (nat \<times> int) list"
  next_ref :: nat

record game_state =
  turn :: nat
  board_size :: int
  genre :: string
  track_length :: int
  player_positions :: nat
  player_resources :: nat
  player_scores :: nat
  eliminated_players :: "nat set"
  game_over :: bool
  state_winner :: "nat option"
  can_collect_resource :: "bool option"
  can_attack :: "bool option"

definition positions_of :: "heap \<Rightarrow> game_state \<Rightarrow> (nat \<times> position) list" where
  "positions_of h s = pos_objs h (player_positions s)"

definition resources_of :: "heap \<Rightarrow> game_state \<Rightarrow> (nat \<times> int) list" where
  "resources_of h s = num_objs h (player_resources s)"

definition scores_of :: "heap \<Rightarrow> game_state \<Rightarrow> (nat \<times> int) list" where
  "scores_of h s = num_objs h (player_scores s)"

text \<open>\<open>state['player_positions'][player_id] = v\<close> and its two siblings: the nested
  dictionary is changed in place, for every state that refers to it.\<close>

definition set_position :: "heap \<Rightarrow> game_state \<Rightarrow> nat \<Rightarrow> position \<Rightarrow> heap" where
  "set_position h s player v =
     h\<lparr>pos_objs := (pos_objs h)(player_positions s := dict_set (positions_of h s) player v)\<rparr>"

definition set_resource :: "heap \<Rightarrow> game_state \<Rightarrow> nat \<Rightarrow> int \<Rightarrow> heap" where
  "set_resource h s player v =
     h\<lparr>num_objs := (num_objs h)(player_resources s := dict_set (resources_of h s) player v)\<rparr>"

definition set_score :: "heap \<Rightarrow> game_state \<Rightarrow> nat \<Rightarrow> int \<Rightarrow> heap" where
  "set_score h s player v =
     h\<lparr>num_objs := (num_objs h)(player_scores s := dict_set (scores_of h s) player v)\<rparr>"

section \<open>balance\_analyzer.py\<close>

text \<open>
  The result of one simulated game:
  \<open>results = {'winner', 'turns', 'final_scores', 'final_resources', 'game_history'}\<close>.
  The two final dictionaries are held by their contents when the game returns; a snapshot
  is what \<open>_capture_state_snapshot\<close> copies.
\<close>

record snapshot =
  snap_turn :: nat
  snap_positions :: "(nat \<times> position) list"
  snap_scores :: "(nat \<times> int) list"
  snap_resources :: "(nat \<times> int) list"

record sim_result =
  winner :: "nat option"
  turns :: nat
  final_scores :: "(nat \<times> int) list"
  final_resources :: "(nat \<times> int) list"
  game_history :: "snapshot list option"

text \<open>The dictionary built by \<open>analyze_game_results\<close> and \<open>_empty_analysis\<close>.\<close>

record analysis =
  total_games :: nat
  win_distribution :: "(nat \<times> real) list"
  fairness_score :: real
  average_game_length :: real
  game_length_std :: real
  complexity_score :: real
  engagement_score :: real
  balance_grade :: string

text \<open>
  \<open>np.mean\<close>, \<open>np.var\<close> (population variance) and \<open>np.std\<close>. The source calls them on
  non-empty lists only.
\<close>

definition np_mean :: "real list \<Rightarrow> real" where
  "np_mean xs = sum_list xs / real (length xs)"

definition np_var :: "real list \<Rightarrow> real" where
  "np_var xs = np_mean (map (\<lambda>x. (x - np_mean xs)\<^sup>2) xs)"

definition np_std :: "real list \<Rightarrow> real" where
  "np_std xs = sqrt (np_var xs)"

definition empty_analysis :: analysis where
  "empty_analysis =
     \<lparr> total_games = 0, win_distribution = [], fairness_score = 0,
       average_game_length = 0, game_length_std = 0, complexity_score = 0,
       engagement_score = 0, balance_grade = ''N/A'' \<rparr>"

text \<open>
  \<open>_calculate_win_distribution\<close>: \<open>Counter(winners).get(player_id, 0)\<close> is the number of
  occurrences of the id in the list.
\<close>

definition calculate_win_distribution :: "nat list \<Rightarrow> nat \<Rightarrow> (nat \<times> real) list" where
  "calculate_win_distribution winners num_players =
     (if winners = [] then map (\<lambda>i. (i, 0)) [0..<num_players]
      else map (\<lambda>player_id.
             (player_id, real (count_list winners player_id) / real (length winners) * 100))
             [0..<num_players])"

text \<open>
  \<open>_calculate_fairness_score\<close>: \<open>100.0 / num_players\<close> raises for no players.
\<close>

definition calculate_fairness_score :: "nat list \<Rightarrow> nat \<Rightarrow> error + real" where
  "calculate_fairness_score winners num_players =
     (if winners = [] then Inr 0
      else
        let win_dist = calculate_win_distribution winners num_players;
            win_percentages = map snd win_dist
        in if num_players = 0 then Inl ZeroDivisionError
           else
             let ideal_percentage = 100 / real num_players;
                 variance = np_var win_percentages;
                 max_variance = ideal_percentage\<^sup>2
             in Inr (100 * (1 - min (variance / max_variance) 1)))"

definition calculate_complexity :: "sim_result list \<Rightarrow> real" where
  "calculate_complexity results =
     (if results = [] then 0
      else
        let ts = map (\<lambda>r. real (turns r)) results;
            avg_turns = np_mean ts;
            std_turns = np_std ts;
            length_score = min (avg_turns / 50 * 50) 50;
            variation_score = min (std_turns / 10 * 50) 50
        in length_score + variation_score)"

definition calculate_engagement :: "sim_result list \<Rightarrow> real" where
  "calculate_engagement results =
     (if results = [] then 0
      else
        let ts = map (\<lambda>r. real (turns r)) results;
            avg_turns = np_mean ts;
            length_engagement =
              (if 20 \<le> avg_turns \<and> avg_turns \<le> 40 then 100
               else if avg_turns < 20 then (avg_turns / 20) * 100
               else max 0 (100 - (avg_turns - 40) * 2));
            score_engagement = 50
        in (length_engagement + score_engagement) / 2)"

definition calculate_balance_grade :: "analysis \<Rightarrow> string" where
  "calculate_balance_grade a =
     (let fairness = fairness_score a
      in if fairness \<ge> 90 then ''A (Excellent)''
         else if fairness \<ge> 75 then ''B (Good)''
         else if fairness \<ge> 60 then ''C (Fair)''
         else if fairness \<ge> 45 then ''D (Poor)''
         else ''F (Unbalanced)'')"

definition letter_grades :: "string list" where
  "letter_grades =
     [''A (Excellent)'', ''B (Good)'', ''C (Fair)'', ''D (Poor)'', ''F (Unbalanced)'']"

text \<open>
  \<open>analyze_game_results\<close>. The analyzer's only state is \<open>analysis_history\<close>, passed in
  and returned; the empty batch returns before the history is touched.
\<close>

definition analyze_game_results ::
  "analysis list \<Rightarrow> sim_result list \<Rightarrow> nat \<Rightarrow> error + (analysis \<times> analysis list)" where
  "analyze_game_results analysis_history simulation_results num_players =
     (if simulation_results = [] then Inr (empty_analysis, analysis_history)
      else
        let winners = List.map_filter winner simulation_results;
            ts = map (\<lambda>r. real (turns r)) simulation_results
        in case calculate_fairness_score winners num_players of
             Inl e \<Rightarrow> Inl e
           | Inr fairness \<Rightarrow>
               let a = \<lparr> total_games = length simulation_results,
                         win_distribution = calculate_win_distribution winners num_players,
                         fairness_score = fairness,
                         average_game_length = (if ts \<noteq> [] then np_mean ts else 0),
                         game_length_std = (if ts \<noteq> [] then np_std ts else 0),
                         complexity_score = calculate_complexity simulation_results,
                         engagement_score = calculate_engagement simulation_results,
                         balance_grade = ''N/A'' \<rparr>;
                   a' = a\<lparr>balance_grade := calculate_balance_grade a\<rparr>
               in Inr (a', analysis_history @ [a']))"

section \<open>ai\_player.py\<close>

text \<open>
  The fields of \<open>QLearningPlayer\<close>. The value table is a Python dictionary keyed by
  \<open>(state_key, action)\<close>, held as an association list in insertion order.
\<close>

record ql_player =
  player_id :: nat
  learning_rate :: real
  discount_factor :: real
  epsilon :: real
  q_table :: "((string \<times> string) \<times> real) list"
  wins :: int
  games_played :: int
  total_reward :: real

text \<open>\<open>__init__\<close>, with the default arguments written out by the caller.\<close>

definition QLearningPlayer :: "nat \<Rightarrow> real \<Rightarrow> real \<Rightarrow> real \<Rightarrow> ql_player" where
  "QLearningPlayer pid lr df eps =
     \<lparr> player_id = pid, learning_rate = lr, discount_factor = df, epsilon = eps,
       q_table = [], wins = 0, games_played = 0, total_reward = 0 \<rparr>"

text \<open>
  \<open>get_state_key\<close>. The state read is the one the heap holds when the method is called.
\<close>

definition get_state_key :: "ql_player \<Rightarrow> heap \<Rightarrow> game_state \<Rightarrow> string" where
  "get_state_key p h state =
     (let player_pos = dict_get (positions_of h state) (player_id p) (Cell 0 0);
          pos_str = (case player_pos of
                       Cell x y \<Rightarrow> str_int x @ ''_'' @ str_int y
                     | Track n \<Rightarrow> str_int n);
          opponent_count =
            length (filter (\<lambda>q. q \<noteq> player_id p) (map fst (positions_of h state)));
          resources = dict_get (resources_of h state) (player_id p) 0
      in pos_str @ ''_'' @ str_nat opponent_count @ ''_'' @ str_int resources @ ''_''
           @ str_nat (turn state mod 10))"

definition get_q_value :: "ql_player \<Rightarrow> string \<Rightarrow> string \<Rightarrow> real" where
  "get_q_value p state_key action = dict_get (q_table p) (state_key, action) 0"

text \<open>
  \<open>get_valid_actions\<close>. In the racing branch \<open>player_pos < track_length - 1\<close> compares
  the position with an \<open>int\<close>, which raises for a pair.
\<close>

definition get_valid_actions :: "ql_player \<Rightarrow> heap \<Rightarrow> game_state \<Rightarrow> error + string list" where
  "get_valid_actions p h game_state =
     (let player_pos = dict_get (positions_of h game_state) (player_id p) (Cell 0 0)
      in case player_pos of
           Track n \<Rightarrow>
             Inr (let actions =
                        (if n < track_length game_state - 1 then [''move_right'', ''move_down'']
                         else []) @ [''stay'']
                  in if actions = [] then [''stay''] else actions)
         | Cell x y \<Rightarrow>
             if genre game_state = ''racing'' then Inl TypeError
             else
               Inr (let actions =
                          (if x > 0 then [''move_left''] else [])
                          @ (if x < board_size game_state - 1 then [''move_right''] else [])
                          @ (if y > 0 then [''move_up''] else [])
                          @ (if y < board_size game_state - 1 then [''move_down''] else [])
                          @ (if can_collect_resource game_state = Some True then [''collect'']
                             else [])
                          @ (if can_attack game_state = Some True then [''attack''] else [])
                          @ [''stay'']
                    in if actions = [] then [''stay''] else actions))"

text \<open>
  \<open>update_q_value\<close>: both states are read in the heap as it is when the method is called.
\<close>

definition update_q_value ::
  "ql_player \<Rightarrow> heap \<Rightarrow> game_state \<Rightarrow> string \<Rightarrow> real \<Rightarrow> game_state \<Rightarrow> bool
     \<Rightarrow> error + ql_player" where
  "update_q_value p h state action reward next_state done =
     (let state_key = get_state_key p h state;
          current_q = get_q_value p state_key action
      in case (if done then Inr reward
               else
                 let next_state_key = get_state_key p h next_state
                 in case get_valid_actions p h next_state of
                      Inl e \<Rightarrow> Inl e
                    | Inr valid_next_actions \<Rightarrow>
                        let max_next_q =
                              py_max (map (get_q_value p next_state_key) valid_next_actions) 0
                        in Inr (reward + discount_factor p * max_next_q)) of
           Inl e \<Rightarrow> Inl e
         | Inr target_q \<Rightarrow>
             let new_q = current_q + learning_rate p * (target_q - current_q)
             in Inr (p\<lparr> q_table := dict_set (q_table p) (state_key, action) new_q,
                        total_reward := total_reward p + reward \<rparr>))"

definition record_game_result :: "bool \<Rightarrow> ql_player \<Rightarrow> ql_player" where
  "record_game_result won p =
     (let p1 = p\<lparr>games_played := games_played p + 1\<rparr>
      in if won then p1\<lparr>wins := wins p1 + 1\<rparr> else p1)"

definition get_win_rate :: "ql_player \<Rightarrow> real" where
  "get_win_rate p =
     (if games_played p > 0 then real_of_int (wins p) / real_of_int (games_played p) else 0)"

text \<open>The dictionary of \<open>get_stats\<close>, also the \<open>'stats'\<close> entry of a saved model.\<close>

record stats =
  stats_player_id :: nat
  stats_games_played :: int
  stats_wins :: int
  stats_win_rate :: real
  stats_total_reward :: real
  stats_avg_reward :: real
  stats_q_table_size :: nat
  stats_epsilon :: real

definition get_stats :: "ql_player \<Rightarrow> stats" where
  "get_stats p =
     \<lparr> stats_player_id = player_id p,
       stats_games_played = games_played p,
       stats_wins = wins p,
       stats_win_rate = get_win_rate p,
       stats_total_reward = total_reward p,
       stats_avg_reward =
         (if games_played p > 0 then total_reward p / real_of_int (games_played p) else 0),
       stats_q_table_size = length (q_table p),
       stats_epsilon = epsilon p \<rparr>"

definition decay_epsilon :: "real \<Rightarrow> real \<Rightarrow> ql_player \<Rightarrow> ql_player" where
  "decay_epsilon decay_rate min_epsilon p =
     p\<lparr>epsilon := max min_epsilon (epsilon p * decay_rate)\<rparr>"


subsection \<open>Model files\<close>

text \<open>
  What \<open>json.load\<close> can return for a model file, by the shapes \<open>load_model\<close> tells apart:
  text that is not JSON, a JSON value that is not an object, or an object whose
  \<open>'q_table'\<close> entry is absent, not an object, or an object with numbers as values, and
  whose \<open>'stats'\<close> entry is absent, not an object, or an object in which each of the three
  keys that are read may be absent. \<open>json.dump\<close> followed by \<open>json.load\<close> returns the
  dictionary that was written. A file system maps a path to the content of the file
  there, \<open>None\<close> when there is no file.
\<close>

datatype q_table_json = QAbsent | QNotObject | QObject "(string \<times> real) list"

record stats_json =
  json_wins :: "int option"
  json_games_played :: "int option"
  json_total_reward :: "real option"

datatype stats_entry = StatsAbsent | StatsNotObject | StatsObject stats_json

datatype file_content = NotJSON | JSONNotObject | JSONObject q_table_json stats_entry

type_synonym file_system = "string \<Rightarrow> file_content option"

text \<open>
  \<open>save_model\<close>: the keys of the table are written as \<open>f"{k[0]}_{k[1]}"\<close>, by a dictionary
  comprehension, so that a later entry with the same text replaces the value of an
  earlier one. Of the statistics only the three keys that \<open>load_model\<close> reads are kept.
  Opening the file for writing is taken to succeed.
\<close>

definition encode_key :: "string \<times> string \<Rightarrow> string" where
  "encode_key k = fst k @ ''_'' @ snd k"

definition encode_q_table :: "((string \<times> string) \<times> real) list \<Rightarrow> (string \<times> real) list" where
  "encode_q_table table = fold (\<lambda>(k, v) d. dict_set d (encode_key k) v) table []"

definition stats_to_json :: "stats \<Rightarrow> stats_json" where
  "stats_to_json s =
     \<lparr> json_wins = Some (stats_wins s),
       json_games_played = Some (stats_games_played s),
       json_total_reward = Some (stats_total_reward s) \<rparr>"

definition save_model :: "ql_player \<Rightarrow> string \<Rightarrow> file_system \<Rightarrow> file_system" where
  "save_model p filepath fs =
     fs(filepath \<mapsto> JSONObject (QObject (encode_q_table (q_table p)))
                           (StatsObject (stats_to_json (get_stats p))))"

text \<open>
  \<open>key.rsplit('_', 1)\<close>: the text before and after the last underscore, or the whole
  text alone when it has none; unpacking that into two names raises.
\<close>

definition rsplit_underscore :: "string \<Rightarrow> string list" where
  "rsplit_underscore key =
     (let r = rev key;
          back = takeWhile (\<lambda>c. c \<noteq> CHR ''_'') r;
          rest = dropWhile (\<lambda>c. c \<noteq> CHR ''_'') r
      in case rest of [] \<Rightarrow> [key] | _ # front \<Rightarrow> [rev front, rev back])"

fun load_entries :: "(string \<times> real) list \<Rightarrow> ql_player \<Rightarrow> ql_player \<times> error option" where
  "load_entries [] p = (p, None)"
| "load_entries ((key, v) # rest) p =
     (case rsplit_underscore key of
        [state, action] \<Rightarrow>
          load_entries rest (p\<lparr>q_table := dict_set (q_table p) (state, action) v\<rparr>)
      | _ \<Rightarrow> (p, Some ValueError))"

text \<open>
  \<open>load_model\<close> returns the agent as the call leaves it, and the exception that was
  caught and printed, if any.
\<close>

definition load_model :: "ql_player \<Rightarrow> string \<Rightarrow> file_system \<Rightarrow> ql_player \<times> error option" where
  "load_model p filepath fs =
     (case fs filepath of
        None \<Rightarrow> (p, Some FileNotFoundError)
      | Some NotJSON \<Rightarrow> (p, Some JSONDecodeError)
      | Some JSONNotObject \<Rightarrow> (p\<lparr>q_table := []\<rparr>, Some TypeError)
      | Some (JSONObject q st) \<Rightarrow>
          (case q of
             QAbsent \<Rightarrow> (p\<lparr>q_table := []\<rparr>, Some KeyError)
           | QNotObject \<Rightarrow> (p\<lparr>q_table := []\<rparr>, Some AttributeError)
           | QObject entries \<Rightarrow>
               (case load_entries entries (p\<lparr>q_table := []\<rparr>) of
                  (p1, Some e) \<Rightarrow> (p1, Some e)
                | (p1, None) \<Rightarrow>
                    (case st of
                       StatsAbsent \<Rightarrow> (p1, None)
                     | StatsNotObject \<Rightarrow> (p1, Some AttributeError)
                     | StatsObject s \<Rightarrow>
                         (p1\<lparr> wins := (case json_wins s of None \<Rightarrow> 0 | Some w \<Rightarrow> w),
                              games_played :=
                                (case json_games_played s of None \<Rightarrow> 0 | Some g \<Rightarrow> g),
                              total_reward :=
                                (case json_total_reward s of None \<Rightarrow> 0 | Some r \<Rightarrow> r) \<rparr>,
                          None)))))"

section \<open>game\_simulator.py\<close>

text \<open>
  The entries of the configuration dictionary that the simulator reads; \<open>None\<close> is an
  absent key, for which each use site has its own default.
\<close>

record game_config =
  cfg_genre :: "string option"
  cfg_num_players :: "nat option"
  cfg_board_size :: "int option"
  cfg_board_length :: "int option"
  cfg_pieces_per_player :: "int option"
  cfg_win_type :: "string option"
  cfg_target_resources :: "int option"
  cfg_control_percentage :: "real option"
  cfg_goal_position :: "(int \<times> int) option"
  cfg_base_movement :: "int option"
  cfg_dice_modifier :: "bool option"
  cfg_collection_rate :: "int option"

record simulator =
  game_config :: game_config
  self_genre :: string
  self_board_size :: int
  num_players :: nat
  max_turns :: nat
  simulation_history :: "sim_result list"

definition GameSimulator :: "game_config \<Rightarrow> simulator" where
  "GameSimulator cfg =
     \<lparr> game_config = cfg,
       self_genre = (case cfg_genre cfg of None \<Rightarrow> ''strategy'' | Some g \<Rightarrow> g),
       self_board_size = (case cfg_board_size cfg of None \<Rightarrow> 8 | Some n \<Rightarrow> n),
       num_players = (case cfg_num_players cfg of None \<Rightarrow> 2 | Some n \<Rightarrow> n),
       max_turns = 100,
       simulation_history = [] \<rparr>"

definition config_track_length :: "simulator \<Rightarrow> int" where
  "config_track_length sim =
     (case cfg_board_length (game_config sim) of None \<Rightarrow> 30 | Some n \<Rightarrow> n)"

definition config_goal_position :: "simulator \<Rightarrow> int \<times> int" where
  "config_goal_position sim =
     (case cfg_goal_position (game_config sim) of
        None \<Rightarrow> (self_board_size sim - 1, self_board_size sim - 1)
      | Some g \<Rightarrow> g)"

text \<open>\<open>corners[player_id % len(corners)]\<close> of \<open>_get_starting_position\<close>.\<close>

definition get_starting_position :: "simulator \<Rightarrow> nat \<Rightarrow> position" where
  "get_starting_position sim player =
     (let corners = [Cell 0 0, Cell 0 (self_board_size sim - 1),
                     Cell (self_board_size sim - 1) 0,
                     Cell (self_board_size sim - 1) (self_board_size sim - 1)]
      in corners ! (player mod length corners))"

text \<open>
  \<open>initialize_game_state\<close> creates the three nested dictionaries at fresh addresses and
  fills them in the order of the player ids.
\<close>

definition init_player :: "simulator \<Rightarrow> game_state \<Rightarrow> nat \<Rightarrow> heap \<Rightarrow> heap" where
  "init_player sim state player h =
     (let pieces_per_player =
            (case cfg_pieces_per_player (game_config sim) of None \<Rightarrow> 1 | Some n \<Rightarrow> n);
          h1 = (if pieces_per_player = 1
                then set_position h state player
                       (if self_genre sim \<noteq> ''racing'' then Cell 0 0 else Track 0)
                else set_position h state player (get_starting_position sim player));
          h2 = set_resource h1 state player 0
      in set_score h2 state player 0)"

definition initialize_game_state :: "simulator \<Rightarrow> heap \<Rightarrow> heap \<times> game_state" where
  "initialize_game_state sim h =
     (let r = next_ref h;
          state = \<lparr> turn = 0,
                    board_size = self_board_size sim,
                    genre = self_genre sim,
                    track_length = config_track_length sim,
                    player_positions = r,
                    player_resources = r + 1,
                    player_scores = r + 2,
                    eliminated_players = {},
                    game_over = False,
                    state_winner = None,
                    can_collect_resource = None,
                    can_attack = None \<rparr>;
          h0 = h\<lparr> pos_objs := (pos_objs h)(r := []),
                   num_objs := (num_objs h)(r + 1 := [], r + 2 := []),
                   next_ref := r + 3 \<rparr>
      in (fold (init_player sim state) [0..<num_players sim] h0, state))"

text \<open>\<open>_move_position\<close>: \<open>x, y = current_pos\<close> raises for a track position.\<close>

definition move_position :: "simulator \<Rightarrow> position \<Rightarrow> string \<Rightarrow> error + position" where
  "move_position sim current_pos action =
     (case current_pos of
        Track n \<Rightarrow> Inl TypeError
      | Cell x y \<Rightarrow>
          Inr (if action = ''move_left'' then Cell (max 0 (x - 1)) y
               else if action = ''move_right'' then Cell (min (self_board_size sim - 1) (x + 1)) y
               else if action = ''move_up'' then Cell x (max 0 (y - 1))
               else if action = ''move_down'' then Cell x (min (self_board_size sim - 1) (y + 1))
               else Cell x y))"

text \<open>
  \<open>_is_unclaimed_territory\<close>; \<open>roll\<close> is the value that \<open>random.random()\<close> returns when
  it is reached.
\<close>

definition is_unclaimed_territory :: "heap \<Rightarrow> game_state \<Rightarrow> position \<Rightarrow> real \<Rightarrow> bool" where
  "is_unclaimed_territory h state pos roll =
     (if pos \<in> snd ` set (positions_of h state) then False else roll > 7 / 10)"

definition starts_with_move :: "string \<Rightarrow> bool" where
  "starts_with_move action = (take 5 action = ''move_'')"

text \<open>
  The four executors change the nested dictionaries of the state they are given and
  return the reward. \<open>dice\<close> is the value of \<open>random.randint(0, 2)\<close> when it is drawn.
\<close>

definition execute_racing_action ::
  "simulator \<Rightarrow> int \<Rightarrow> heap \<Rightarrow> game_state \<Rightarrow> nat \<Rightarrow> string \<Rightarrow> error + (heap \<times> real)" where
  "execute_racing_action sim dice h state player action =
     (case dict_item (positions_of h state) player of
        Inl e \<Rightarrow> Inl e
      | Inr current_pos \<Rightarrow>
          let track_length = config_track_length sim;
              movement =
                (if action \<in> set [''move_right'', ''move_down'']
                 then (case cfg_base_movement (game_config sim) of None \<Rightarrow> 2 | Some m \<Rightarrow> m)
                      + (if cfg_dice_modifier (game_config sim) = Some True then dice else 0)
                 else 0)
          in case current_pos of
               Cell x y \<Rightarrow> Inl TypeError
             | Track c \<Rightarrow>
                 let new_pos = min (c + movement) (track_length - 1);
                     h1 = set_position h state player (Track new_pos);
                     h2 = set_score h1 state player new_pos;
                     reward = real_of_int movement * (1 / 2)
                 in Inr (h2, if new_pos \<ge> track_length - 1 then reward + 100 else reward))"

definition execute_resource_action ::
  "simulator \<Rightarrow> heap \<Rightarrow> game_state \<Rightarrow> nat \<Rightarrow> string \<Rightarrow> error + (heap \<times> real)" where
  "execute_resource_action sim h state player action =
     (case (if action = ''collect'' then
              let collection_rate =
                    (case cfg_collection_rate (game_config sim) of None \<Rightarrow> 2 | Some c \<Rightarrow> c)
              in case dict_item (resources_of h state) player of
                   Inl e \<Rightarrow> Inl e
                 | Inr res \<Rightarrow>
                     Inr (set_resource h state player (res + collection_rate),
                          real_of_int collection_rate)
            else if starts_with_move action then
              case dict_item (positions_of h state) player of
                Inl e \<Rightarrow> Inl e
              | Inr pos \<Rightarrow>
                  (case move_position sim pos action of
                     Inl e \<Rightarrow> Inl e
                   | Inr new_pos \<Rightarrow> Inr (set_position h state player new_pos, 1 / 10))
            else Inr (h, 0)) of
        Inl e \<Rightarrow> Inl e
      | Inr (h1, reward) \<Rightarrow>
          (case dict_item (resources_of h1 state) player of
             Inl e \<Rightarrow> Inl e
           | Inr res \<Rightarrow> Inr (set_score h1 state player res, reward)))"

definition execute_territory_action ::
  "simulator \<Rightarrow> real \<Rightarrow> heap \<Rightarrow> game_state \<Rightarrow> nat \<Rightarrow> string \<Rightarrow> error + (heap \<times> real)" where
  "execute_territory_action sim roll h state player action =
     (if starts_with_move action then
        case dict_item (positions_of h state) player of
          Inl e \<Rightarrow> Inl e
        | Inr pos \<Rightarrow>
            (case move_position sim pos action of
               Inl e \<Rightarrow> Inl e
             | Inr new_pos \<Rightarrow>
                 (case (if is_unclaimed_territory h state new_pos roll then
                          case dict_item (scores_of h state) player of
                            Inl e \<Rightarrow> Inl e
                          | Inr sc \<Rightarrow> Inr (set_score h state player (sc + 3), 5)
                        else Inr (h, 0)) of
                    Inl e \<Rightarrow> Inl e
                  | Inr (h1, reward) \<Rightarrow> Inr (set_position h1 state player new_pos, reward)))
      else Inr (h, 0))"

definition execute_strategy_action ::
  "simulator \<Rightarrow> heap \<Rightarrow> game_state \<Rightarrow> nat \<Rightarrow> string \<Rightarrow> error + (heap \<times> real)" where
  "execute_strategy_action sim h state player action =
     (let goal_pos = config_goal_position sim
      in if starts_with_move action then
           case dict_item (positions_of h state) player of
             Inl e \<Rightarrow> Inl e
           | Inr pos \<Rightarrow>
               (case move_position sim pos action of
                  Inl e \<Rightarrow> Inl e
                | Inr new_pos \<Rightarrow>
                    (case (pos, new_pos) of
                       (Cell x y, Cell nx ny) \<Rightarrow>
                         let old_dist = \<bar>x - fst goal_pos\<bar> + \<bar>y - snd goal_pos\<bar>;
                             new_dist = \<bar>nx - fst goal_pos\<bar> + \<bar>ny - snd goal_pos\<bar>;
                             reward = (if new_dist < old_dist then 1
                                       else if new_dist > old_dist then - (1 / 2) else 0);
                             h1 = set_position h state player new_pos
                         in (case dict_item (scores_of h1 state) player of
                               Inl e \<Rightarrow> Inl e
                             | Inr sc \<Rightarrow> Inr (set_score h1 state player (sc + 1), reward))
                     | _ \<Rightarrow> Inl TypeError))
         else Inr (h, 0))"

text \<open>
  \<open>_execute_action\<close>: \<open>next_state = state.copy()\<close> is a new top-level dictionary with
  the same entries, the three references among them; the executor is then run on it.
\<close>

definition execute_action ::
  "simulator \<Rightarrow> int \<Rightarrow> real \<Rightarrow> heap \<Rightarrow> game_state \<Rightarrow> nat \<Rightarrow> string
     \<Rightarrow> error + (heap \<times> game_state \<times> real \<times> bool)" where
  "execute_action sim dice roll h state player action =
     (let next_state = state
      in case (if self_genre sim = ''racing''
               then execute_racing_action sim dice h next_state player action
               else if self_genre sim = ''resource_management''
               then execute_resource_action sim h next_state player action
               else if self_genre sim = ''territory_control''
               then execute_territory_action sim roll h next_state player action
               else execute_strategy_action sim h next_state player action) of
           Inl e \<Rightarrow> Inl e
         | Inr (h1, reward) \<Rightarrow> Inr (h1, next_state, reward - 1 / 100, False))"

text \<open>
  \<open>_check_win_condition\<close>. The last branch is the \<open>else\<close> of the source; the
  \<open>return False\<close> after the chain is never reached.
\<close>

definition check_win_condition :: "simulator \<Rightarrow> heap \<Rightarrow> game_state \<Rightarrow> nat \<Rightarrow> error + bool" where
  "check_win_condition sim h state player =
     (let win_type = (case cfg_win_type (game_config sim) of
                        None \<Rightarrow> ''position_or_elimination'' | Some t \<Rightarrow> t)
      in if win_type = ''race_finish'' then
           let track_length = config_track_length sim
           in case dict_item (positions_of h state) player of
                Inl e \<Rightarrow> Inl e
              | Inr (Track n) \<Rightarrow> Inr (n \<ge> track_length - 1)
              | Inr (Cell x y) \<Rightarrow> Inl TypeError
         else if win_type = ''resource_collection'' then
           let target = (case cfg_target_resources (game_config sim) of
                           None \<Rightarrow> 50 | Some t \<Rightarrow> t)
           in case dict_item (resources_of h state) player of
                Inl e \<Rightarrow> Inl e
              | Inr res \<Rightarrow> Inr (res \<ge> target)
         else if win_type = ''territory_control'' then
           let required_score =
                 (case cfg_control_percentage (game_config sim) of
                    None \<Rightarrow> 6 / 10 | Some c \<Rightarrow> c) * 100
           in case dict_item (scores_of h state) player of
                Inl e \<Rightarrow> Inl e
              | Inr sc \<Rightarrow> Inr (real_of_int sc \<ge> required_score)
         else
           let goal_pos = config_goal_position sim
           in case dict_item (positions_of h state) player of
                Inl e \<Rightarrow> Inl e
              | Inr pos \<Rightarrow> Inr (pos = Cell (fst goal_pos) (snd goal_pos)))"

definition capture_state_snapshot :: "heap \<Rightarrow> game_state \<Rightarrow> snapshot" where
  "capture_state_snapshot h state =
     \<lparr> snap_turn = turn state,
       snap_positions = positions_of h state,
       snap_scores = scores_of h state,
       snap_resources = resources_of h state \<rparr>"

text \<open>
  What a run draws from outside the simulator, by turn index and player id: the action
  that \<open>ai_player.choose_action(state, training=training)\<close> returns (it depends on
  random draws), the value of \<open>random.randint(0, 2)\<close> and the value of
  \<open>random.random()\<close> in the executors.
\<close>

record environment =
  chosen_action :: "nat \<Rightarrow> nat \<Rightarrow> string"
  randint_0_2 :: "nat \<Rightarrow> nat \<Rightarrow> int"
  random_roll :: "nat \<Rightarrow> nat \<Rightarrow> real"

text \<open>
  One player's move in \<open>simulate_game\<close>, from \<open>choose_action\<close> to the win check: the
  heap after the executor has run, and the action, reward, next state and \<open>done\<close> flag
  that are then passed to \<open>update_q_value\<close> together with \<open>state\<close>.
\<close>

definition step_transition ::
  "simulator \<Rightarrow> environment \<Rightarrow> heap \<Rightarrow> game_state \<Rightarrow> nat
     \<Rightarrow> error + (heap \<times> string \<times> real \<times> game_state \<times> bool)" where
  "step_transition sim env h state player =
     (let action = chosen_action env (turn state) player
      in case execute_action sim (randint_0_2 env (turn state) player)
                (random_roll env (turn state) player) h state player action of
           Inl e \<Rightarrow> Inl e
         | Inr (h1, next_state, reward, done) \<Rightarrow>
             (case check_win_condition sim h1 next_state player of
                Inl e \<Rightarrow> Inl e
              | Inr won \<Rightarrow>
                  if won
                  then Inr (h1, action, reward + 100,
                            next_state\<lparr>game_over := True, state_winner := Some player\<rparr>, True)
                  else Inr (h1, action, reward, next_state, done)))"

definition player_step ::
  "simulator \<Rightarrow> environment \<Rightarrow> bool \<Rightarrow> heap \<Rightarrow> game_state \<Rightarrow> ql_player list \<Rightarrow> nat
     \<Rightarrow> error + (heap \<times> game_state \<times> ql_player list)" where
  "player_step sim env training h state ai_players player =
     (if player \<ge> length ai_players then Inl IndexError
      else
        let ai_player = ai_players ! player
        in case step_transition sim env h state player of
             Inl e \<Rightarrow> Inl e
           | Inr (h1, action, reward, next_state, done) \<Rightarrow>
               (case (if training
                      then update_q_value ai_player h1 state action reward next_state done
                      else Inr ai_player) of
                  Inl e \<Rightarrow> Inl e
                | Inr ai_player' \<Rightarrow> Inr (h1, next_state, ai_players[player := ai_player'])))"

text \<open>The loop over the players of one turn; it stops at the first finished game.\<close>

fun player_loop ::
  "simulator \<Rightarrow> environment \<Rightarrow> bool \<Rightarrow> nat list \<Rightarrow> heap \<times> game_state \<times> ql_player list
     \<Rightarrow> error + (heap \<times> game_state \<times> ql_player list)" where
  "player_loop sim env training [] x = Inr x"
| "player_loop sim env training (player # rest) (h, state, ai_players) =
     (if player \<in> eliminated_players state
      then player_loop sim env training rest (h, state, ai_players)
      else
        case player_step sim env training h state ai_players player of
          Inl e \<Rightarrow> Inl e
        | Inr (h1, state1, ai_players1) \<Rightarrow>
            if game_over state1 then Inr (h1, state1, ai_players1)
            else player_loop sim env training rest (h1, state1, ai_players1))"

text \<open>The loop over the turn indices.\<close>

fun turn_loop ::
  "simulator \<Rightarrow> environment \<Rightarrow> bool \<Rightarrow> nat list
     \<Rightarrow> heap \<times> game_state \<times> ql_player list \<times> snapshot list option
     \<Rightarrow> error + (heap \<times> game_state \<times> ql_player list \<times> snapshot list option)" where
  "turn_loop sim env training [] x = Inr x"
| "turn_loop sim env training (t # ts) (h, state, ai_players, history) =
     (let state0 = state\<lparr>turn := t\<rparr>;
          history1 =
            (case history of
               None \<Rightarrow> None
             | Some snaps \<Rightarrow> Some (snaps @ [capture_state_snapshot h state0]))
      in case player_loop sim env training [0..<num_players sim] (h, state0, ai_players) of
           Inl e \<Rightarrow> Inl e
         | Inr (h1, state1, ai_players1) \<Rightarrow>
             if game_over state1 then Inr (h1, state1, ai_players1, history1)
             else turn_loop sim env training ts (h1, state1, ai_players1, history1))"

text \<open>
  \<open>simulate_game\<close>. The agents of the list are distinct objects. The result holds the
  contents of the score and resource dictionaries when the game returns.
\<close>

definition simulate_game ::
  "simulator \<Rightarrow> environment \<Rightarrow> ql_player list \<Rightarrow> bool \<Rightarrow> bool \<Rightarrow> heap
     \<Rightarrow> error + (heap \<times> ql_player list \<times> simulator \<times> sim_result)" where
  "simulate_game sim env ai_players training render h =
     (case initialize_game_state sim h of
        (h0, state) \<Rightarrow>
          (case turn_loop sim env training [0..<max_turns sim]
                  (h0, state, ai_players, if render then Some [] else None) of
             Inl e \<Rightarrow> Inl e
           | Inr (h1, state1, ai_players1, game_history1) \<Rightarrow>
               let ai_players2 =
                     map (\<lambda>(player, ai_player).
                            let recorded =
                                  record_game_result (state_winner state1 = Some player) ai_player
                            in if training then decay_epsilon (995 / 1000) (1 / 100) recorded
                               else recorded)
                       (enumerate 0 ai_players1);
                   results = \<lparr> winner = state_winner state1,
                               turns = turn state1,
                               final_scores = scores_of h1 state1,
                               final_resources = resources_of h1 state1,
                               game_history = game_history1 \<rparr>
               in Inr (h1, ai_players2,
                       sim\<lparr>simulation_history := simulation_history sim @ [results]\<rparr>,
                       results)))"

section \<open>The update target in the words of the specification\<close>

text \<open>
  The target of the one-step update as the specification states it: the reward for a
  terminal transition, otherwise the reward plus the discounted maximum, over the valid
  actions of the next state, of the table values at the next key, an unknown pair
  counting as 0 (and the maximum being 0 when there is no valid action).
\<close>

definition spec_target ::
  "ql_player \<Rightarrow> string \<Rightarrow> string list \<Rightarrow> real \<Rightarrow> bool \<Rightarrow> real" where
  "spec_target p next_key valid_next reward terminal =
     (if terminal then reward
      else reward + discount_factor p
             * (if valid_next = [] then 0
                else Max ((\<lambda>a. case map_of (q_table p) (next_key, a) of
                                 None \<Rightarrow> 0 | Some v \<Rightarrow> v) ` set valid_next)))"

section \<open>Inputs of the examples\<close>

text \<open>The configuration \<open>{}\<close>, in which every key takes its default, and a heap that
  holds no object yet.\<close>

definition default_config :: game_config where
  "default_config =
     \<lparr> cfg_genre = None, cfg_num_players = None, cfg_board_size = None,
       cfg_board_length = None, cfg_pieces_per_player = None, cfg_win_type = None,
       cfg_target_resources = None, cfg_control_percentage = None,
       cfg_goal_position = None, cfg_base_movement = None, cfg_dice_modifier = None,
       cfg_collection_rate = None \<rparr>"

definition empty_heap :: heap where
  "empty_heap = \<lparr> pos_objs = (\<lambda>_. []), num_objs = (\<lambda>_. []), next_ref = 0 \<rparr>"

text \<open>
  The scenario of a resource game for a single player: target 30, collection rate 3, and
  a run in which \<open>choose_action\<close> returns \<open>collect\<close> at every turn (no random number is
  drawn in this genre).
\<close>

definition collect_config :: game_config where
  "collect_config =
     default_config\<lparr> cfg_genre := Some ''resource_management'', cfg_num_players := Some 1,
       cfg_win_type := Some ''resource_collection'', cfg_target_resources := Some 30,
       cfg_collection_rate := Some 3 \<rparr>"

definition always_collect :: environment where
  "always_collect =
     \<lparr> chosen_action = (\<lambda>t player. ''collect''), randint_0_2 = (\<lambda>t player. 0),
       random_roll = (\<lambda>t player. 0) \<rparr>"

section \<open>Basic facts about the shared values\<close>

lemmas heap_defs = positions_of_def resources_of_def scores_of_def set_position_def
  set_resource_def set_score_def

lemma dict_set_fresh: "k \<notin> fst ` set d \<Longrightarrow> dict_set d k v = d @ [(k, v)]"
  by (induction d) auto

lemma dict_set_range:
  "dict_set (map (\<lambda>i. (i, f i)) [0..<n]) n v = map (\<lambda>i. (i, f i)) [0..<n] @ [(n, v)]"
proof -
  have "n \<notin> fst ` set (map (\<lambda>i. (i, f i)) [0..<n])" by (auto simp: image_iff)
  then show ?thesis by (rule dict_set_fresh)
qed

lemma map_of_range: "i < n \<Longrightarrow> map_of (map (\<lambda>i. (i, f i)) [0..<n]) i = Some (f i)"
  by (simp add: map_of_map_restrict restrict_map_def)

lemma map_of_dict_set: "map_of (dict_set d k v) = (map_of d)(k \<mapsto> v)"
  by (induction d) (auto simp: fun_eq_iff)

lemma dict_set_keys: "fst ` set (dict_set d k v) = insert k (fst ` set d)"
  by (simp add: dom_map_of_conv_image_fst[symmetric] map_of_dict_set)

lemma py_max_Max: "xs \<noteq> [] \<Longrightarrow> py_max xs d = Max (set xs)"
  by (induction xs d rule: py_max.induct) simp_all

lemma str_nat_digit: "n < 10 \<Longrightarrow> str_nat n = [digit_char n]"
  by (simp add: str_nat.simps)

lemma str_nat_more: "10 \<le> n \<Longrightarrow> str_nat n = str_nat (n div 10) @ [digit_char (n mod 10)]"
  by (subst str_nat.simps) simp

lemmas str_defs = str_int_def str_nat_digit str_nat_more digit_char_def

lemmas init_defs = initialize_game_state_def GameSimulator_def default_config_def
  empty_heap_def Let_def init_player_def heap_defs upt_conv_Cons config_track_length_def

section \<open>Properties of the balance analyzer\<close>






text \<open>
  C4, as stated: for two configured players the empty batch would have the win
  distribution \<open>{0: 0.0, 1: 0.0}\<close>. \<open>_empty_analysis\<close> returns the empty dictionary.
\<close>

theorem empty_batch_distribution_counterexample:
  "analyze_game_results [] [] 2 = Inr (empty_analysis, [])
   \<and> win_distribution empty_analysis = []
   \<and> win_distribution empty_analysis \<noteq> [(0, 0), (1, 0)]"
  by (simp add: analyze_game_results_def empty_analysis_def)

text \<open>
  C4, amended: for every player count \<open>N\<close> (and every analysis history), analyzing the
  empty batch returns the fixed report of \<open>_empty_analysis\<close> and leaves the history as it
  was: fairness score 0, the grade \<open>N/A\<close>, which is none of the five letter grades, an
  empty win distribution, and 0 in every other numeric field.
\<close>

theorem empty_batch_analysis:
  "analyze_game_results hist [] N = Inr (empty_analysis, hist)
   \<and> fairness_score empty_analysis = 0
   \<and> balance_grade empty_analysis = ''N/A''
   \<and> balance_grade empty_analysis \<notin> set letter_grades
   \<and> win_distribution empty_analysis = []
   \<and> total_games empty_analysis = 0
   \<and> average_game_length empty_analysis = 0
   \<and> game_length_std empty_analysis = 0
   \<and> complexity_score empty_analysis = 0
   \<and> engagement_score empty_analysis = 0"
  by (simp add: analyze_game_results_def empty_analysis_def letter_grades_def)

section \<open>Properties of the agent\<close>

lemma epsilon_decay_epsilon [simp]:
  "epsilon (decay_epsilon r m p) = max m (epsilon p * r)"
  by (simp add: decay_epsilon_def)

lemma decay_step_closed_form:
  fixes e r m :: real
  assumes "0 \<le> r" and "r \<le> 1" and "0 \<le> m"
  shows "max m (max m e * r) = max m (e * r)"
proof -
  have "m * r \<le> m" using assms by (simp add: mult_left_le)
  moreover have "max m e * r = max (m * r) (e * r)"
    using assms(1) by (simp add: max_mult_distrib_right)
  ultimately show ?thesis by (simp add: max_def)
qed

lemma decay_epsilon_Suc:
  assumes "0 \<le> r" and "r \<le> 1" and "0 \<le> m"
  shows "epsilon ((decay_epsilon r m ^^ Suc k) p) = max m (epsilon p * r ^ Suc k)"
proof (induction k)
  case 0
  show ?case by simp
next
  case (Suc k)
  have "epsilon ((decay_epsilon r m ^^ Suc (Suc k)) p)
          = max m (epsilon ((decay_epsilon r m ^^ Suc k) p) * r)"
    by simp
  also have "\<dots> = max m (max m (epsilon p * r ^ Suc k) * r)"
    by (simp only: Suc.IH)
  also have "\<dots> = max m (epsilon p * r ^ Suc k * r)"
    using assms by (rule decay_step_closed_form)
  also have "\<dots> = max m (epsilon p * r ^ Suc (Suc k))"
    by (simp add: mult_ac)
  finally show ?case .
qed

text \<open>
  C8, as stated: after zero decay steps an agent created with epsilon 0.005 would have
  epsilon \<open>max(0.01, 0.005) = 0.01\<close>; it still has 0.005.
\<close>

theorem decay_epsilon_closed_form_counterexample:
  "epsilon ((decay_epsilon (995 / 1000) (1 / 100) ^^ 0) (QLearningPlayer 0 (1 / 10) (9 / 10) (5 / 1000)))
     \<noteq> max (1 / 100) (5 / 1000 * (995 / 1000) ^ 0)"
  by (simp add: QLearningPlayer_def)

text \<open>
  C8, amended: for a decay rate \<open>r\<close> with \<open>0 \<le> r \<le> 1\<close>, a floor \<open>m \<ge> 0\<close> and a number
  of steps \<open>k\<close> that is at least 1 (or any \<open>k\<close> when the initial epsilon is at least the
  floor), \<open>k\<close> applications of \<open>decay_epsilon\<close> yield \<open>max m (epsilon\<^sub>0 * r ^ k)\<close>.
\<close>

theorem decay_epsilon_closed_form:
  assumes "0 \<le> r" and "r \<le> 1" and "0 \<le> m" and "0 < k \<or> m \<le> epsilon p"
  shows "epsilon ((decay_epsilon r m ^^ k) p) = max m (epsilon p * r ^ k)"
proof (cases k)
  case 0
  then show ?thesis using assms(4) by simp
next
  case (Suc j)
  then show ?thesis using decay_epsilon_Suc[OF assms(1-3)] by simp
qed

theorem decay_epsilon_closed_form_witness:
  "(0::real) \<le> 1 / 2 \<and> (1 / 2 :: real) \<le> 1 \<and> (0::real) \<le> 1 / 100
   \<and> (0 < (3::nat) \<or> 1 / 100 \<le> epsilon (QLearningPlayer 0 (1 / 10) (9 / 10) (1 / 5)))
   \<and> epsilon ((decay_epsilon (1 / 2) (1 / 100) ^^ 3) (QLearningPlayer 0 (1 / 10) (9 / 10) (1 / 5)))
       = 1 / 40"
proof -
  have h1: "(0::real) \<le> 1 / 2" and h2: "(1 / 2 :: real) \<le> 1" and h3: "(0::real) \<le> 1 / 100"
    by simp_all
  have h4: "0 < (3::nat) \<or> 1 / 100 \<le> epsilon (QLearningPlayer 0 (1 / 10) (9 / 10) (1 / 5))"
    by simp
  have "epsilon ((decay_epsilon (1 / 2) (1 / 100) ^^ 3) (QLearningPlayer 0 (1 / 10) (9 / 10) (1 / 5)))
          = max (1 / 100) (epsilon (QLearningPlayer 0 (1 / 10) (9 / 10) (1 / 5)) * (1 / 2) ^ 3)"
    by (rule decay_epsilon_closed_form[OF h1 h2 h3 h4])
  also have "\<dots> = 1 / 40"
    by (simp add: QLearningPlayer_def eval_nat_numeral)
  finally show ?thesis using h1 h2 h3 h4 by simp
qed

text \<open>The closed form needs a decay rate of at most 1: with rate 2 and floor 1, two steps
  from epsilon 0 give 2, not \<open>max 1 (0 * 2\<^sup>2) = 1\<close>.\<close>

lemma decay_epsilon_rate_above_one:
  "epsilon ((decay_epsilon 2 1 ^^ 2) (QLearningPlayer 0 (1 / 10) (9 / 10) 0)) = 2
   \<and> max 1 (epsilon (QLearningPlayer 0 (1 / 10) (9 / 10) 0) * 2 ^ 2) = (1::real)"
  by (simp add: QLearningPlayer_def eval_nat_numeral)

lemma get_q_value_map_of:
  "get_q_value p k a = (case map_of (q_table p) (k, a) of None \<Rightarrow> 0 | Some v \<Rightarrow> v)"
  by (simp add: get_q_value_def dict_get_def)

lemma get_valid_actions_nonempty: "get_valid_actions p h s = Inr acts \<Longrightarrow> acts \<noteq> []"
  by (auto simp: get_valid_actions_def Let_def split: position.splits if_splits)

lemma get_valid_actions_defined:
  "genre s \<noteq> ''racing'' \<Longrightarrow> \<exists>acts. get_valid_actions p h s = Inr acts"
  by (simp add: get_valid_actions_def split: position.splits)

lemma target_eq:
  assumes "done \<or> get_valid_actions p h next_state = Inr acts"
  shows "(if done then Inr reward
               else
                 let next_state_key = get_state_key p h next_state
                 in case get_valid_actions p h next_state of
                      Inl e \<Rightarrow> Inl e
                    | Inr valid_next_actions \<Rightarrow>
                        let max_next_q =
                              py_max (map (get_q_value p next_state_key) valid_next_actions) 0
                        in Inr (reward + discount_factor p * max_next_q))
     = Inr (spec_target p (get_state_key p h next_state) acts reward done)"
proof (cases "done")
  case True
  then show ?thesis by (simp add: spec_target_def)
next
  case False
  with assms have g: "get_valid_actions p h next_state = Inr acts" by simp
  have ne: "acts \<noteq> []" using g by (rule get_valid_actions_nonempty)
  have "py_max (map (get_q_value p (get_state_key p h next_state)) acts) 0
          = Max ((\<lambda>a. case map_of (q_table p) (get_state_key p h next_state, a) of
                                 None \<Rightarrow> 0 | Some v \<Rightarrow> v) ` set acts)"
    using ne by (simp add: py_max_Max get_q_value_map_of[abs_def])
  then show ?thesis using False g ne by (simp add: spec_target_def)
qed

lemma update_q_value_eq:
  assumes "done \<or> get_valid_actions p h next_state = Inr acts"
  shows "update_q_value p h state action reward next_state done =
     Inr (p\<lparr> q_table := dict_set (q_table p) (get_state_key p h state, action)
                 (get_q_value p (get_state_key p h state) action + learning_rate p * (spec_target p (get_state_key p h next_state) acts reward done - get_q_value p (get_state_key p h state) action)),
                        total_reward := total_reward p + reward \<rparr>)"
  unfolding update_q_value_def Let_def target_eq[OF assms, unfolded Let_def]
  by simp

lemma update_q_value_defined:
  assumes "genre next_state \<noteq> ''racing''"
  shows "\<exists>p'. update_q_value p h state action reward next_state terminal = Inr p'"
proof -
  from get_valid_actions_defined[OF assms]
  obtain acts where "get_valid_actions p h next_state = Inr acts" by blast
  then have "terminal \<or> get_valid_actions p h next_state = Inr acts" by simp
  from update_q_value_eq[OF this] show ?thesis by blast
qed

lemma get_state_key_cong:
  "player_id p' = player_id p \<Longrightarrow> get_state_key p' h s = get_state_key p h s"
  by (simp add: get_state_key_def)

lemma get_valid_actions_cong:
  "player_id p' = player_id p \<Longrightarrow> get_valid_actions p' h s = get_valid_actions p h s"
  by (simp add: get_valid_actions_def)

lemma spec_target_cong:
  assumes "discount_factor p' = discount_factor p"
    and "\<And>k a. get_q_value p' k a = get_q_value p k a"
  shows "spec_target p' k acts r d = spec_target p k acts r d"
  using assms by (simp add: spec_target_def get_q_value_map_of)

lemma get_q_value_dict_set:
  "get_q_value (p\<lparr>q_table := dict_set (q_table p) (k, a) v, total_reward := t\<rparr>) k' a'
     = (if (k', a') = (k, a) then v else get_q_value p k' a')"
  by (simp add: get_q_value_map_of map_of_dict_set)

text \<open>
  C7. Whenever the valid actions of the next state are defined (or the transition is
  terminal), \<open>update_q_value\<close> returns, and the value stored for the key of the state and
  the action is \<open>value + \<alpha> * (target - value)\<close> with the target of the specification;
  no other pair changes its value, and the reward is added to the total. When the target
  equals the current value, every value of the table is what it was, and applying the
  update again leaves it so.
\<close>

theorem update_q_value_rule:
  assumes "terminal \<or> get_valid_actions p h next_state = Inr acts"
  shows "\<exists>p'. update_q_value p h state action reward next_state terminal = Inr p'
         \<and> map_of (q_table p') (get_state_key p h state, action)
             = Some (get_q_value p (get_state_key p h state) action
                     + learning_rate p
                       * (spec_target p (get_state_key p h next_state) acts reward terminal
                          - get_q_value p (get_state_key p h state) action))
         \<and> (\<forall>k a. (k, a) \<noteq> (get_state_key p h state, action)
                 \<longrightarrow> get_q_value p' k a = get_q_value p k a)
         \<and> total_reward p' = total_reward p + reward
         \<and> (spec_target p (get_state_key p h next_state) acts reward terminal
              = get_q_value p (get_state_key p h state) action
            \<longrightarrow> (\<forall>k a. get_q_value p' k a = get_q_value p k a)
                \<and> (\<exists>p''. update_q_value p' h state action reward next_state terminal = Inr p''
                          \<and> (\<forall>k a. get_q_value p'' k a = get_q_value p k a)))"
proof -
  let ?k = "get_state_key p h state"
  let ?nk = "get_state_key p h next_state"
  let ?t = "spec_target p ?nk acts reward terminal"
  let ?v = "get_q_value p ?k action + learning_rate p * (?t - get_q_value p ?k action)"
  let ?p' = "p\<lparr>q_table := dict_set (q_table p) (?k, action) ?v,
               total_reward := total_reward p + reward\<rparr>"
  have u: "update_q_value p h state action reward next_state terminal = Inr ?p'"
    by (rule update_q_value_eq[OF assms])
  have stored: "map_of (q_table ?p') (?k, action) = Some ?v"
    by (simp add: map_of_dict_set)
  have others: "\<forall>k a. (k, a) \<noteq> (?k, action) \<longrightarrow> get_q_value ?p' k a = get_q_value p k a"
    by (simp add: get_q_value_dict_set)
  have fixpoint: "(\<forall>k a. get_q_value ?p' k a = get_q_value p k a)
             \<and> (\<exists>p''. update_q_value ?p' h state action reward next_state terminal = Inr p''
                       \<and> (\<forall>k a. get_q_value p'' k a = get_q_value p k a))"
    if eq: "?t = get_q_value p ?k action"
  proof -
    define p1 where "p1 = ?p'"
    have same: "\<And>k a. get_q_value p1 k a = get_q_value p k a"
      using eq by (simp add: p1_def get_q_value_dict_set)
    have pid: "player_id p1 = player_id p" and df: "discount_factor p1 = discount_factor p"
      and lr: "learning_rate p1 = learning_rate p"
      by (simp_all add: p1_def)
    have hyp1: "terminal \<or> get_valid_actions p1 h next_state = Inr acts"
      using assms by (simp only: get_valid_actions_cong[OF pid])
    have k1: "get_state_key p1 h state = ?k" and nk1: "get_state_key p1 h next_state = ?nk"
      by (simp_all only: get_state_key_cong[OF pid])
    have t1: "spec_target p1 ?nk acts reward terminal = get_q_value p ?k action"
      by (simp only: spec_target_cong[OF df same] eq)
    let ?p2 = "p1\<lparr>q_table := dict_set (q_table p1) (?k, action) (get_q_value p ?k action),
                  total_reward := total_reward p1 + reward\<rparr>"
    have "update_q_value p1 h state action reward next_state terminal = Inr ?p2"
      by (simp add: update_q_value_eq[OF hyp1] k1 nk1 t1 same)
    moreover have "\<forall>k a. get_q_value ?p2 k a = get_q_value p k a"
      by (simp add: get_q_value_dict_set same)
    ultimately show ?thesis using same unfolding p1_def by blast
  qed
  show ?thesis
    using u stored others fixpoint by (intro exI[of _ ?p']) simp
qed

theorem update_q_value_rule_witness:
  "(case initialize_game_state (GameSimulator default_config) empty_heap of
      (h, s) \<Rightarrow>
        get_valid_actions
              ((QLearningPlayer 0 (1 / 10) (9 / 10) (1 / 5))\<lparr>q_table := [((''0_0_1_0_0'', ''stay''), 10)]\<rparr>) h s
            = Inr [''move_right'', ''move_down'', ''stay'']
        \<and> spec_target
              ((QLearningPlayer 0 (1 / 10) (9 / 10) (1 / 5))\<lparr>q_table := [((''0_0_1_0_0'', ''stay''), 10)]\<rparr>)
              ''0_0_1_0_0'' [''move_right'', ''move_down'', ''stay''] 1 False = 10
        \<and> (case update_q_value
                   ((QLearningPlayer 0 (1 / 10) (9 / 10) (1 / 5))\<lparr>q_table := [((''0_0_1_0_0'', ''stay''), 10)]\<rparr>)
                   h s ''stay'' 1 s False of
              Inl e \<Rightarrow> False
            | Inr p' \<Rightarrow>
                map_of (q_table p') (''0_0_1_0_0'', ''stay'') = Some 10 \<and> total_reward p' = 1
                \<and> (case update_q_value p' h s ''stay'' 1 s False of
                      Inl e \<Rightarrow> False
                    | Inr p'' \<Rightarrow> get_q_value p'' ''0_0_1_0_0'' ''stay'' = 10)))"
proof -
  let ?p = "(QLearningPlayer 0 (1 / 10) (9 / 10) (1 / 5))\<lparr>q_table := [((''0_0_1_0_0'', ''stay''), 10)]\<rparr>"
  obtain h s where e: "initialize_game_state (GameSimulator default_config) empty_heap = (h, s)"
    by (cases "initialize_game_state (GameSimulator default_config) empty_heap")
  have hs: "positions_of h s = [(0, Cell 0 0), (1, Cell 0 0)]"
    "resources_of h s = [(0, 0), (1, 0)]" "turn s = 0" "genre s = ''strategy''"
    "board_size s = 8" "can_collect_resource s = None" "can_attack s = None"
    using e by (auto simp: init_defs)
  have k: "get_state_key ?p h s = ''0_0_1_0_0''"
    by (simp add: hs get_state_key_def QLearningPlayer_def dict_get_def str_defs)
  have g: "get_valid_actions ?p h s = Inr [''move_right'', ''move_down'', ''stay'']"
    by (simp add: hs get_valid_actions_def QLearningPlayer_def dict_get_def)
  have t: "spec_target ?p ''0_0_1_0_0'' [''move_right'', ''move_down'', ''stay''] 1 False = 10"
    by (simp add: spec_target_def QLearningPlayer_def)
  have q: "get_q_value ?p ''0_0_1_0_0'' ''stay'' = 10"
    by (simp add: get_q_value_def dict_get_def)
  from update_q_value_rule[where state = s and action = "''stay''" and reward = 1
      and terminal = False, OF disjI2[OF g], unfolded k t q]
  obtain p' where u: "update_q_value ?p h s ''stay'' 1 s False = Inr p'"
    and m: "map_of (q_table p') (''0_0_1_0_0'', ''stay'') = Some (10 + learning_rate ?p * (10 - 10))"
    and r: "total_reward p' = total_reward ?p + 1"
    and again: "(10::real) = 10 \<longrightarrow> (\<forall>k a. get_q_value p' k a = get_q_value ?p k a)
        \<and> (\<exists>p''. update_q_value p' h s ''stay'' 1 s False = Inr p''
               \<and> (\<forall>k a. get_q_value p'' k a = get_q_value ?p k a))"
    by (elim exE conjE) (erule meta_allE meta_impE | assumption)+
  from again obtain p'' where u2: "update_q_value p' h s ''stay'' 1 s False = Inr p''"
    and q2: "\<forall>k a. get_q_value p'' k a = get_q_value ?p k a"
    by blast
  have "get_q_value p'' ''0_0_1_0_0'' ''stay'' = 10" using q2 q by simp
  moreover have "map_of (q_table p') (''0_0_1_0_0'', ''stay'') = Some 10" using m by simp
  moreover have "total_reward p' = 1" using r by (simp add: QLearningPlayer_def)
  ultimately show ?thesis using g t by (simp add: e u u2)
qed

lemma load_entries_fields:
  "load_entries es p = (p', r) \<Longrightarrow>
     wins p' = wins p \<and> games_played p' = games_played p \<and> total_reward p' = total_reward p
     \<and> player_id p' = player_id p \<and> epsilon p' = epsilon p
     \<and> learning_rate p' = learning_rate p \<and> discount_factor p' = discount_factor p"
proof (induction es arbitrary: p)
  case Nil
  then show ?case by simp
next
  case (Cons kv es)
  obtain key v where kv: "kv = (key, v)" by (cases kv)
  show ?case
  proof (cases "\<exists>state action. rsplit_underscore key = [state, action]")
    case True
    then obtain state action where r: "rsplit_underscore key = [state, action]" by blast
    with Cons.prems kv
    have "load_entries es (p\<lparr>q_table := dict_set (q_table p) (state, action) v\<rparr>) = (p', r)"
      by simp
    from Cons.IH[OF this] show ?thesis by simp
  next
    case False
    with Cons.prems kv have "p' = p"
      by (auto split: list.splits)
    then show ?thesis by simp
  qed
qed

text \<open>
  C2, as stated: a file holding the JSON object \<open>{}\<close> is malformed (it has no
  \<open>'q_table'\<close> entry), the load fails with a \<open>KeyError\<close> that is caught and printed, and
  the agent's value table would be what it was. It is empty: \<open>self.q_table = {}\<close> runs
  before the entry is looked up.
\<close>

theorem load_model_clears_table_counterexample:
  "load_model ((QLearningPlayer 0 (1 / 10) (9 / 10) (1 / 5))\<lparr>q_table := [((''0_0_1_0_0'', ''stay''), 10)]\<rparr>)
      ''model.json'' [''model.json'' \<mapsto> JSONObject QAbsent StatsAbsent]
    = ((QLearningPlayer 0 (1 / 10) (9 / 10) (1 / 5))\<lparr>q_table := []\<rparr>, Some KeyError)
   \<and> q_table ((QLearningPlayer 0 (1 / 10) (9 / 10) (1 / 5))\<lparr>q_table := [((''0_0_1_0_0'', ''stay''), 10)]\<rparr>)
       \<noteq> q_table ((QLearningPlayer 0 (1 / 10) (9 / 10) (1 / 5))\<lparr>q_table := []\<rparr>)"
  by (simp add: load_model_def QLearningPlayer_def)

text \<open>
  C2, amended: for every agent, a model file that is missing or whose content is not
  JSON makes \<open>load_model\<close> report the failure and change nothing of the agent; and
  whenever \<open>load_model\<close> reports a failure, whatever the file holds, the agent's wins,
  games\_played and total\_reward are what they were before the call.
\<close>

theorem load_model_failure:
  "(fs filepath = None \<longrightarrow> load_model p filepath fs = (p, Some FileNotFoundError))
   \<and> (fs filepath = Some NotJSON \<longrightarrow> load_model p filepath fs = (p, Some JSONDecodeError))
   \<and> (snd (load_model p filepath fs) \<noteq> None \<longrightarrow>
        wins (fst (load_model p filepath fs)) = wins p
        \<and> games_played (fst (load_model p filepath fs)) = games_played p
        \<and> total_reward (fst (load_model p filepath fs)) = total_reward p)"
proof (intro conjI impI)
  assume "fs filepath = None"
  then show "load_model p filepath fs = (p, Some FileNotFoundError)"
    by (simp add: load_model_def)
next
  assume "fs filepath = Some NotJSON"
  then show "load_model p filepath fs = (p, Some JSONDecodeError)"
    by (simp add: load_model_def)
next
  assume failed: "snd (load_model p filepath fs) \<noteq> None"
  have entries: "wins p1 = wins p \<and> games_played p1 = games_played p \<and> total_reward p1 = total_reward p"
    if "load_entries es (p\<lparr>q_table := []\<rparr>) = (p1, r)" for es p1 r
    using load_entries_fields[OF that] by simp
  have "wins (fst (load_model p filepath fs)) = wins p
        \<and> games_played (fst (load_model p filepath fs)) = games_played p
        \<and> total_reward (fst (load_model p filepath fs)) = total_reward p"
    using failed
    by (auto simp: load_model_def dest: entries
          split: option.splits file_content.splits q_table_json.splits stats_entry.splits
            prod.splits)
  then show "wins (fst (load_model p filepath fs)) = wins p"
    and "games_played (fst (load_model p filepath fs)) = games_played p"
    and "total_reward (fst (load_model p filepath fs)) = total_reward p"
    by simp_all
qed

theorem load_model_failure_witness:
  "(Map.empty :: file_system) ''model.json'' = None
   \<and> load_model ((QLearningPlayer 0 (1 / 10) (9 / 10) (1 / 5))\<lparr>q_table := [((''0_0_1_0_0'', ''stay''), 10)]\<rparr>)
        ''model.json'' Map.empty
      = ((QLearningPlayer 0 (1 / 10) (9 / 10) (1 / 5))\<lparr>q_table := [((''0_0_1_0_0'', ''stay''), 10)]\<rparr>,
         Some FileNotFoundError)
   \<and> snd (load_model ((QLearningPlayer 0 (1 / 10) (9 / 10) (1 / 5))\<lparr>wins := 3\<rparr>)
        ''model.json'' [''model.json'' \<mapsto> JSONObject QAbsent StatsAbsent]) = Some KeyError
   \<and> wins (fst (load_model ((QLearningPlayer 0 (1 / 10) (9 / 10) (1 / 5))\<lparr>wins := 3\<rparr>)
        ''model.json'' [''model.json'' \<mapsto> JSONObject QAbsent StatsAbsent])) = 3"
proof -
  let ?p = "(QLearningPlayer 0 (1 / 10) (9 / 10) (1 / 5))\<lparr>q_table := [((''0_0_1_0_0'', ''stay''), 10)]\<rparr>"
  let ?q = "(QLearningPlayer 0 (1 / 10) (9 / 10) (1 / 5))\<lparr>wins := 3\<rparr>"
  let ?fs = "[''model.json'' \<mapsto> JSONObject QAbsent StatsAbsent]"
  have a: "load_model ?p ''model.json'' Map.empty = (?p, Some FileNotFoundError)"
    using load_model_failure[of Map.empty "''model.json''" ?p] by simp
  have s: "snd (load_model ?q ''model.json'' ?fs) = Some KeyError"
    by (simp add: load_model_def)
  then have "snd (load_model ?q ''model.json'' ?fs) \<noteq> None" by simp
  with load_model_failure[of ?fs "''model.json''" ?q]
  have "wins (fst (load_model ?q ''model.json'' ?fs)) = wins ?q" by blast
  then have w: "wins (fst (load_model ?q ''model.json'' ?fs)) = 3" by simp
  show ?thesis using a s w by simp
qed

text \<open>
  A saved model always loads without a failure, and the three statistics come back as
  they were saved.
\<close>

lemma rsplit_underscore_two:
  assumes "CHR ''_'' \<in> set key"
  shows "\<exists>state action. rsplit_underscore key = [state, action]"
proof -
  have "CHR ''_'' \<in> set (rev key)" using assms by simp
  then have "dropWhile (\<lambda>c. c \<noteq> CHR ''_'') (rev key) \<noteq> []"
    by (simp add: dropWhile_eq_Nil_conv)
  then show ?thesis
    by (auto simp: rsplit_underscore_def Let_def split: list.splits)
qed

lemma load_entries_succeeds:
  "\<forall>key \<in> fst ` set es. CHR ''_'' \<in> set key \<Longrightarrow> snd (load_entries es p) = None"
proof (induction es arbitrary: p)
  case Nil
  then show ?case by simp
next
  case (Cons kv es)
  obtain key v where kv: "kv = (key, v)" by (cases kv)
  from Cons.prems kv have "CHR ''_'' \<in> set key" by simp
  from rsplit_underscore_two[OF this]
  obtain state action where r: "rsplit_underscore key = [state, action]" by blast
  have "\<forall>key \<in> fst ` set es. CHR ''_'' \<in> set key" using Cons.prems by simp
  from Cons.IH[OF this] show ?case by (simp add: kv r)
qed

lemma encode_fold_keys:
  "fst ` set (fold (\<lambda>(k, v) d. dict_set d (encode_key k) v) table d0)
     = fst ` set d0 \<union> encode_key ` fst ` set table"
  by (induction table arbitrary: d0) (auto simp: dict_set_keys split: prod.splits)

lemma encode_q_table_keys:
  "\<forall>key \<in> fst ` set (encode_q_table table). CHR ''_'' \<in> set key"
  unfolding encode_q_table_def encode_fold_keys by (auto simp: encode_key_def)

lemma save_then_load_restores_stats:
  "snd (load_model p filepath (save_model p filepath fs)) = None
   \<and> wins (fst (load_model p filepath (save_model p filepath fs))) = wins p
   \<and> games_played (fst (load_model p filepath (save_model p filepath fs))) = games_played p
   \<and> total_reward (fst (load_model p filepath (save_model p filepath fs))) = total_reward p"
proof -
  obtain p1 r where le: "load_entries (encode_q_table (q_table p)) (p\<lparr>q_table := []\<rparr>) = (p1, r)"
    by (cases "load_entries (encode_q_table (q_table p)) (p\<lparr>q_table := []\<rparr>)")
  have "r = None"
    using load_entries_succeeds[OF encode_q_table_keys, of "q_table p" "p\<lparr>q_table := []\<rparr>"] le
    by simp
  then show ?thesis
    by (simp add: load_model_def save_model_def le stats_to_json_def get_stats_def)
qed

text \<open>
  C3. An agent that has learned one value for the action \<open>move_right\<close> (by one terminal
  update in the initial state of the default configuration) is saved and loaded again:
  the key \<open>0_0_1_0_0_move_right\<close> of the file is split at its last underscore, and the
  loaded table holds the value under the state key \<open>0_0_1_0_0_move\<close> and the action
  \<open>right\<close>.
\<close>

theorem save_load_splits_action_name:
  "(case initialize_game_state (GameSimulator default_config) empty_heap of
      (h, s) \<Rightarrow> update_q_value (QLearningPlayer 0 (1 / 10) (9 / 10) (1 / 5)) h s ''move_right'' 1 s True)
     = Inr ((QLearningPlayer 0 (1 / 10) (9 / 10) (1 / 5))
              \<lparr>q_table := [((''0_0_1_0_0'', ''move_right''), 1 / 10)], total_reward := 1\<rparr>)
   \<and> load_model
         ((QLearningPlayer 0 (1 / 10) (9 / 10) (1 / 5))
              \<lparr>q_table := [((''0_0_1_0_0'', ''move_right''), 1 / 10)], total_reward := 1\<rparr>)
         ''model.json''
         (save_model
            ((QLearningPlayer 0 (1 / 10) (9 / 10) (1 / 5))
              \<lparr>q_table := [((''0_0_1_0_0'', ''move_right''), 1 / 10)], total_reward := 1\<rparr>)
            ''model.json'' Map.empty)
       = ((QLearningPlayer 0 (1 / 10) (9 / 10) (1 / 5))
              \<lparr>q_table := [((''0_0_1_0_0_move'', ''right''), 1 / 10)], total_reward := 1\<rparr>, None)"
proof (intro conjI)
  show "(case initialize_game_state (GameSimulator default_config) empty_heap of
      (h, s) \<Rightarrow> update_q_value (QLearningPlayer 0 (1 / 10) (9 / 10) (1 / 5)) h s ''move_right'' 1 s True)
     = Inr ((QLearningPlayer 0 (1 / 10) (9 / 10) (1 / 5))
              \<lparr>q_table := [((''0_0_1_0_0'', ''move_right''), 1 / 10)], total_reward := 1\<rparr>)"
    by (simp add: init_defs update_q_value_def get_state_key_def get_q_value_def
        QLearningPlayer_def dict_get_def str_defs)
  show "load_model
         ((QLearningPlayer 0 (1 / 10) (9 / 10) (1 / 5))
              \<lparr>q_table := [((''0_0_1_0_0'', ''move_right''), 1 / 10)], total_reward := 1\<rparr>)
         ''model.json''
         (save_model
            ((QLearningPlayer 0 (1 / 10) (9 / 10) (1 / 5))
              \<lparr>q_table := [((''0_0_1_0_0'', ''move_right''), 1 / 10)], total_reward := 1\<rparr>)
            ''model.json'' Map.empty)
       = ((QLearningPlayer 0 (1 / 10) (9 / 10) (1 / 5))
              \<lparr>q_table := [((''0_0_1_0_0_move'', ''right''), 1 / 10)], total_reward := 1\<rparr>, None)"
    by (simp add: load_model_def save_model_def encode_q_table_def encode_key_def
        stats_to_json_def get_stats_def rsplit_underscore_def QLearningPlayer_def)
qed

section \<open>Properties of the simulator\<close>

text \<open>The loop of \<open>initialize_game_state\<close> fills three empty dictionaries in the order
  of the player ids.\<close>

lemma fold_init_player:
  assumes "player_resources s \<noteq> player_scores s"
    and "positions_of h s = []" and "resources_of h s = []" and "scores_of h s = []"
  shows "positions_of (fold (init_player sim s) [0..<n] h) s
           = map (\<lambda>i. (i, if (case cfg_pieces_per_player (game_config sim) of
                                   None \<Rightarrow> 1 | Some n \<Rightarrow> n) = 1
                            then (if self_genre sim \<noteq> ''racing'' then Cell 0 0 else Track 0)
                            else get_starting_position sim i)) [0..<n]
       \<and> resources_of (fold (init_player sim s) [0..<n] h) s = map (\<lambda>i. (i, 0)) [0..<n]
       \<and> scores_of (fold (init_player sim s) [0..<n] h) s = map (\<lambda>i. (i, 0)) [0..<n]"
proof (induction n)
  case 0
  show ?case using assms by simp
next
  case (Suc n)
  let ?h = "fold (init_player sim s) [0..<n] h"
  have P: "positions_of ?h s
             = map (\<lambda>i. (i, if (case cfg_pieces_per_player (game_config sim) of
                                     None \<Rightarrow> 1 | Some n \<Rightarrow> n) = 1
                              then (if self_genre sim \<noteq> ''racing'' then Cell 0 0 else Track 0)
                              else get_starting_position sim i)) [0..<n]"
    and R: "resources_of ?h s = map (\<lambda>i. (i, 0)) [0..<n]"
    and S: "scores_of ?h s = map (\<lambda>i. (i, 0)) [0..<n]"
    using Suc.IH by simp_all
  have step: "fold (init_player sim s) [0..<Suc n] h = init_player sim s n ?h" by simp
  show ?case
    unfolding step
    using P R S assms(1)
    by (simp add: init_player_def Let_def heap_defs dict_set_range)
qed

lemma initialize_game_state_dicts:
  assumes "initialize_game_state sim h = (h', s)"
  shows "positions_of h' s
           = map (\<lambda>i. (i, if (case cfg_pieces_per_player (game_config sim) of
                                   None \<Rightarrow> 1 | Some n \<Rightarrow> n) = 1
                            then (if self_genre sim \<noteq> ''racing'' then Cell 0 0 else Track 0)
                            else get_starting_position sim i)) [0..<num_players sim]"
    and "resources_of h' s = map (\<lambda>i. (i, 0)) [0..<num_players sim]"
    and "scores_of h' s = map (\<lambda>i. (i, 0)) [0..<num_players sim]"
proof -
  let ?h0 = "h\<lparr> pos_objs := (pos_objs h)(next_ref h := []),
                num_objs := (num_objs h)(next_ref h + 1 := [], next_ref h + 2 := []),
                next_ref := next_ref h + 3 \<rparr>"
  have h': "h' = fold (init_player sim s) [0..<num_players sim] ?h0"
    and s: "player_positions s = next_ref h" "player_resources s = next_ref h + 1"
      "player_scores s = next_ref h + 2"
    using assms by (auto simp: initialize_game_state_def Let_def)
  have "positions_of ?h0 s = []" "resources_of ?h0 s = []" "scores_of ?h0 s = []"
    "player_resources s \<noteq> player_scores s"
    by (simp_all add: heap_defs s)
  from fold_init_player[OF this(4) this(1-3), of sim "num_players sim"]
  show "positions_of h' s
          = map (\<lambda>i. (i, if (case cfg_pieces_per_player (game_config sim) of
                                  None \<Rightarrow> 1 | Some n \<Rightarrow> n) = 1
                           then (if self_genre sim \<noteq> ''racing'' then Cell 0 0 else Track 0)
                           else get_starting_position sim i)) [0..<num_players sim]"
    and "resources_of h' s = map (\<lambda>i. (i, 0)) [0..<num_players sim]"
    and "scores_of h' s = map (\<lambda>i. (i, 0)) [0..<num_players sim]"
    unfolding h' by simp_all
qed

text \<open>
  C5, as stated: in the configuration \<open>{}\<close> (genre strategy, two players, board size 8,
  one piece per player) player 1 would start in the corner \<open>corners[1 % 4] = (0, 7)\<close>.
  Both players start at \<open>(0, 0)\<close>.
\<close>

theorem initial_corner_counterexample:
  "(case initialize_game_state (GameSimulator default_config) empty_heap of
      (h, s) \<Rightarrow> positions_of h s) = [(0, Cell 0 0), (1, Cell 0 0)]
   \<and> self_genre (GameSimulator default_config) \<noteq> ''racing''
   \<and> get_starting_position (GameSimulator default_config) 1 = Cell 0 7"
  by (simp add: initialize_game_state_def GameSimulator_def default_config_def empty_heap_def
      Let_def init_player_def heap_defs upt_conv_Cons get_starting_position_def)

text \<open>
  C5, amended: \<open>initialize_game_state\<close> creates one entry per player id below the player
  count in each of the three dictionaries; every resource and score counter starts at 0;
  with one piece per player (the default of \<open>pieces_per_player\<close>) each player of the
  racing genre starts at track position 0 and each player of another genre at the
  coordinate \<open>(0, 0)\<close>; with another number of pieces per player each player of a
  non-racing genre starts in one of the four corners of the size x size board, taken in
  the order \<open>(0, 0)\<close>, \<open>(0, size - 1)\<close>, \<open>(size - 1, 0)\<close>, \<open>(size - 1, size - 1)\<close> by the
  player id modulo 4.
\<close>

theorem initialize_game_state_players:
  assumes "initialize_game_state sim h = (h', s)" and "i < num_players sim"
  shows "map fst (positions_of h' s) = [0..<num_players sim]
       \<and> map fst (resources_of h' s) = [0..<num_players sim]
       \<and> map fst (scores_of h' s) = [0..<num_players sim]
       \<and> dict_item (resources_of h' s) i = Inr 0
       \<and> dict_item (scores_of h' s) i = Inr 0
       \<and> (cfg_pieces_per_player (game_config sim) \<in> {None, Some 1}
            \<and> self_genre sim = ''racing''
          \<longrightarrow> dict_item (positions_of h' s) i = Inr (Track 0))
       \<and> (cfg_pieces_per_player (game_config sim) \<in> {None, Some 1}
            \<and> self_genre sim \<noteq> ''racing''
          \<longrightarrow> dict_item (positions_of h' s) i = Inr (Cell 0 0))
       \<and> (cfg_pieces_per_player (game_config sim) \<notin> {None, Some 1}
            \<and> self_genre sim \<noteq> ''racing''
          \<longrightarrow> dict_item (positions_of h' s) i
                = Inr ([Cell 0 0, Cell 0 (self_board_size sim - 1),
                        Cell (self_board_size sim - 1) 0,
                        Cell (self_board_size sim - 1) (self_board_size sim - 1)] ! (i mod 4)))"
proof -
  note d = initialize_game_state_dicts[OF assms(1)]
  show ?thesis
    using assms(2)
    by (auto simp: d comp_def dict_item_def map_of_range get_starting_position_def
          split: option.splits)
qed

theorem initialize_game_state_players_witness:
  "(1::nat) < num_players (GameSimulator (default_config\<lparr>cfg_pieces_per_player := Some 3\<rparr>))
   \<and> (case initialize_game_state
              (GameSimulator (default_config\<lparr>cfg_pieces_per_player := Some 3\<rparr>)) empty_heap of
         (h, s) \<Rightarrow> dict_item (positions_of h s) 1 = Inr (Cell 0 7)
                  \<and> dict_item (resources_of h s) 1 = Inr 0
                  \<and> dict_item (scores_of h s) 1 = Inr 0)"
proof -
  let ?sim = "GameSimulator (default_config\<lparr>cfg_pieces_per_player := Some 3\<rparr>)"
  obtain h s where e: "initialize_game_state ?sim empty_heap = (h, s)"
    by (cases "initialize_game_state ?sim empty_heap")
  have lt: "(1::nat) < num_players ?sim"
    by (simp add: GameSimulator_def default_config_def)
  have cfg: "cfg_pieces_per_player (game_config ?sim) \<notin> {None, Some 1}"
    "self_genre ?sim \<noteq> ''racing''" "self_board_size ?sim = 8"
    by (simp_all add: GameSimulator_def default_config_def)
  from initialize_game_state_players[OF e lt] cfg
  have "dict_item (positions_of h s) 1 = Inr (Cell 0 7)"
    and "dict_item (resources_of h s) 1 = Inr 0"
    and "dict_item (scores_of h s) 1 = Inr 0"
    by simp_all
  then show ?thesis using lt by (simp add: e)
qed

text \<open>Every win-condition type other than the first three of the chain is evaluated as
  \<open>position_or_elimination\<close>.\<close>

lemma check_win_condition_other_type:
  assumes "cfg_win_type (game_config sim) = Some t"
    and "t \<notin> {''race_finish'', ''resource_collection'', ''territory_control''}"
  shows "check_win_condition sim h state player
           = (case dict_item (positions_of h state) player of
                Inl e \<Rightarrow> Inl e
              | Inr pos \<Rightarrow> Inr (pos = Cell (fst (config_goal_position sim))
                                          (snd (config_goal_position sim))))"
  using assms by (simp add: check_win_condition_def Let_def)

text \<open>
  C1. With the win-condition type \<open>most_points\<close>, which is none of the four types of
  the source, a player standing on the default goal \<open>(7, 7)\<close> of the 8 x 8 board is
  reported to have won: the \<open>else\<close> branch of \<open>_check_win_condition\<close> takes every type
  that is not one of the first three.
\<close>

theorem unrecognized_win_type_is_satisfied:
  "(case initialize_game_state
           (GameSimulator (default_config\<lparr>cfg_win_type := Some ''most_points''\<rparr>)) empty_heap of
      (h, s) \<Rightarrow>
        check_win_condition (GameSimulator (default_config\<lparr>cfg_win_type := Some ''most_points''\<rparr>))
          (set_position h s 0 (Cell 7 7)) s 0) = Inr True"
  by (simp add: initialize_game_state_def GameSimulator_def default_config_def empty_heap_def
      Let_def init_player_def heap_defs upt_conv_Cons check_win_condition_def dict_item_def
      config_goal_position_def)

lemma step_transition_next_state:
  assumes "step_transition sim env h s pl = Inr (h1, a, r, ns, d)"
  shows "ns = s \<or> ns = s\<lparr>game_over := True, state_winner := Some pl\<rparr>"
  using assms
  by (auto simp: step_transition_def execute_action_def Let_def
        split: sum.splits prod.splits if_splits)

lemma get_state_key_refs:
  assumes "player_positions s' = player_positions s" and "player_resources s' = player_resources s"
    and "turn s' = turn s"
  shows "get_state_key p h s' = get_state_key p h s"
  using assms by (simp add: get_state_key_def positions_of_def resources_of_def)

text \<open>
  C10. In every move of \<open>simulate_game\<close>, when \<open>update_q_value\<close> is called the old
  state and the next state refer to the same three nested dictionaries and have the
  same turn index: read in the heap of that moment they hold the same positions,
  resources and scores (those after the action), \<open>get_state_key\<close> gives the same key for
  both, for every agent, and the training step is the one that would be made with the
  next state in the place of the old one.
\<close>

theorem old_state_is_next_state:
  assumes "step_transition sim env h state player = Inr (h1, action, reward, next_state, terminal)"
  shows "player_positions next_state = player_positions state
       \<and> player_resources next_state = player_resources state
       \<and> player_scores next_state = player_scores state
       \<and> turn next_state = turn state
       \<and> positions_of h1 state = positions_of h1 next_state
       \<and> resources_of h1 state = resources_of h1 next_state
       \<and> scores_of h1 state = scores_of h1 next_state
       \<and> get_state_key p h1 state = get_state_key p h1 next_state
       \<and> update_q_value p h1 state action reward next_state terminal
           = update_q_value p h1 next_state action reward next_state terminal
       \<and> (player < length ai_players \<longrightarrow>
            player_step sim env True h state ai_players player
              = (case update_q_value (ai_players ! player) h1 next_state action reward
                        next_state terminal of
                   Inl e \<Rightarrow> Inl e
                 | Inr ai_player' \<Rightarrow> Inr (h1, next_state, ai_players[player := ai_player'])))"
proof -
  from step_transition_next_state[OF assms]
  have refs: "player_positions next_state = player_positions state"
    "player_resources next_state = player_resources state"
    "player_scores next_state = player_scores state"
    "turn next_state = turn state"
    by auto
  have dicts: "positions_of h1 state = positions_of h1 next_state"
    "resources_of h1 state = resources_of h1 next_state"
    "scores_of h1 state = scores_of h1 next_state"
    by (simp_all add: heap_defs refs)
  have key: "get_state_key q h1 state = get_state_key q h1 next_state" for q
    by (rule get_state_key_refs[symmetric]) (simp_all add: refs)
  have upd: "update_q_value q h1 state action reward next_state terminal
           = update_q_value q h1 next_state action reward next_state terminal" for q
    by (simp add: update_q_value_def key)
  have "player_step sim env True h state ai_players player
              = (case update_q_value (ai_players ! player) h1 next_state action reward
                        next_state terminal of
                   Inl e \<Rightarrow> Inl e
                 | Inr ai_player' \<Rightarrow> Inr (h1, next_state, ai_players[player := ai_player']))"
    if "player < length ai_players"
    using that assms by (simp add: player_step_def upd)
  with refs dicts key upd show ?thesis by simp
qed

theorem old_state_is_next_state_witness:
  "(case initialize_game_state (GameSimulator collect_config) empty_heap of
      (h, s) \<Rightarrow>
        (case step_transition (GameSimulator collect_config) always_collect h s 0 of
           Inl e \<Rightarrow> False
         | Inr (h1, action, reward, next_state, terminal) \<Rightarrow>
             get_state_key (QLearningPlayer 0 (1 / 10) (9 / 10) (1 / 5)) h s = ''0_0_0_0_0''
             \<and> get_state_key (QLearningPlayer 0 (1 / 10) (9 / 10) (1 / 5)) h1 s = ''0_0_0_3_0''
             \<and> get_state_key (QLearningPlayer 0 (1 / 10) (9 / 10) (1 / 5)) h1 next_state
                 = ''0_0_0_3_0''
             \<and> 0 < length [QLearningPlayer 0 (1 / 10) (9 / 10) (1 / 5)]
             \<and> player_step (GameSimulator collect_config) always_collect True h s
                  [QLearningPlayer 0 (1 / 10) (9 / 10) (1 / 5)] 0
                = (case update_q_value (QLearningPlayer 0 (1 / 10) (9 / 10) (1 / 5)) h1 next_state
                          action reward next_state terminal of
                     Inl e \<Rightarrow> Inl e
                   | Inr ai_player' \<Rightarrow>
                       Inr (h1, next_state,
                            [QLearningPlayer 0 (1 / 10) (9 / 10) (1 / 5)][0 := ai_player']))))"
proof -
  let ?sim = "GameSimulator collect_config"
  let ?p = "QLearningPlayer 0 (1 / 10) (9 / 10) (1 / 5)"
  obtain h s where e: "initialize_game_state ?sim empty_heap = (h, s)"
    by (cases "initialize_game_state ?sim empty_heap")
  have hs: "positions_of h s = [(0, Cell 0 0)]" "resources_of h s = [(0, 0)]"
    "scores_of h s = [(0, 0)]" "turn s = 0" "player_resources s \<noteq> player_scores s"
    using e by (auto simp: init_defs collect_config_def)
  define h1 where "h1 = set_score (set_resource h s 0 3) s 0 3"
  have st: "step_transition ?sim always_collect h s 0 = Inr (h1, ''collect'', 299 / 100, s, False)"
    using hs
    by (simp add: step_transition_def execute_action_def execute_resource_action_def
        check_win_condition_def GameSimulator_def collect_config_def default_config_def
        always_collect_def dict_item_def heap_defs h1_def)
  have h1: "resources_of h1 s = [(0, 3)]" "positions_of h1 s = [(0, Cell 0 0)]"
    using hs by (simp_all add: h1_def heap_defs)
  have k0: "get_state_key ?p h s = ''0_0_0_0_0''"
    by (simp add: hs get_state_key_def QLearningPlayer_def dict_get_def str_defs)
  have k1: "get_state_key ?p h1 s = ''0_0_0_3_0''"
    by (simp add: h1 hs get_state_key_def QLearningPlayer_def dict_get_def str_defs)
  have len: "0 < length [?p]" by simp
  from old_state_is_next_state[OF st, of ?p "[?p]"] len
  have "player_step ?sim always_collect True h s [?p] 0
          = (case update_q_value ([?p] ! 0) h1 s ''collect'' (299 / 100) s False of
               Inl e \<Rightarrow> Inl e
             | Inr ai_player' \<Rightarrow> Inr (h1, s, [?p][0 := ai_player']))"
    by blast
  then have ps: "player_step ?sim always_collect True h s [?p] 0
          = (case update_q_value ?p h1 s ''collect'' (299 / 100) s False of
               Inl e \<Rightarrow> Inl e
             | Inr ai_player' \<Rightarrow> Inr (h1, s, [?p][0 := ai_player']))"
    by simp
  show ?thesis using k0 k1 ps by (simp add: e st)
qed

text \<open>One move of the collecting player, and the turn loop from a state with \<open>r\<close>
  resources to the win.\<close>

lemma collect_step:
  assumes sim: "self_genre sim = ''resource_management''"
      "cfg_win_type (game_config sim) = Some ''resource_collection''"
      "cfg_target_resources (game_config sim) = Some 30"
      "cfg_collection_rate (game_config sim) = Some 3"
    and env: "chosen_action env = (\<lambda>t player. ''collect'')"
    and st: "resources_of h s = [(0, r)]" "scores_of h s = [(0, sc)]"
      "player_resources s \<noteq> player_scores s"
  shows "step_transition sim env h s 0
           = Inr (set_score (set_resource h s 0 (r + 3)) s 0 (r + 3), ''collect'',
                  (if 30 \<le> r + 3 then 3 - 1 / 100 + 100 else 3 - 1 / 100),
                  (if 30 \<le> r + 3 then s\<lparr>game_over := True, state_winner := Some 0\<rparr> else s),
                  30 \<le> r + 3)"
  using st
  by (simp add: step_transition_def execute_action_def execute_resource_action_def
      check_win_condition_def sim env dict_item_def heap_defs)

lemma collect_player_step:
  assumes sim: "self_genre sim = ''resource_management''"
      "cfg_win_type (game_config sim) = Some ''resource_collection''"
      "cfg_target_resources (game_config sim) = Some 30"
      "cfg_collection_rate (game_config sim) = Some 3"
    and env: "chosen_action env = (\<lambda>t player. ''collect'')"
    and st: "resources_of h s = [(0, r)]" "scores_of h s = [(0, sc)]"
      "player_resources s \<noteq> player_scores s"
    and g: "genre s \<noteq> ''racing''" and len: "length ags = 1"
  shows "\<exists>ags'. player_step sim env training h s ags 0
           = Inr (set_score (set_resource h s 0 (r + 3)) s 0 (r + 3),
                  (if 30 \<le> r + 3 then s\<lparr>game_over := True, state_winner := Some 0\<rparr> else s),
                  ags')
         \<and> length ags' = 1"
proof -
  let ?ns = "if 30 \<le> r + 3 then s\<lparr>game_over := True, state_winner := Some 0\<rparr> else s"
  have gn: "genre ?ns \<noteq> ''racing''" using g by simp
  note step = collect_step[OF sim env st]
  show ?thesis
  proof (cases training)
    case False
    then show ?thesis using len by (simp add: player_step_def step)
  next
    case True
    from update_q_value_defined[OF gn]
    obtain p' where "update_q_value (ags ! 0) (set_score (set_resource h s 0 (r + 3)) s 0 (r + 3)) s
        ''collect'' (if 30 \<le> r + 3 then 3 - 1 / 100 + 100 else 3 - 1 / 100) ?ns (30 \<le> r + 3) = Inr p'"
      by blast
    then show ?thesis using len True by (simp add: player_step_def step)
  qed
qed

lemma collect_turn_loop:
  assumes sim: "self_genre sim = ''resource_management''"
      "cfg_win_type (game_config sim) = Some ''resource_collection''"
      "cfg_target_resources (game_config sim) = Some 30"
      "cfg_collection_rate (game_config sim) = Some 3"
    and one: "num_players sim = 1"
    and env: "chosen_action env = (\<lambda>t player. ''collect'')"
  shows "resources_of h s = [(0, r)] \<Longrightarrow> scores_of h s = [(0, sc)]
     \<Longrightarrow> player_resources s \<noteq> player_scores s \<Longrightarrow> genre s \<noteq> ''racing''
     \<Longrightarrow> eliminated_players s = {} \<Longrightarrow> \<not> game_over s \<Longrightarrow> length ags = 1
     \<Longrightarrow> r + 3 * int k < 30 \<Longrightarrow> 30 \<le> r + 3 * (int k + 1) \<Longrightarrow> k < n
     \<Longrightarrow> \<exists>h' s' ags' hist'.
           turn_loop sim env training [t..<t + n] (h, s, ags, hist) = Inr (h', s', ags', hist')
           \<and> turn s' = t + k \<and> state_winner s' = Some 0 \<and> game_over s'
           \<and> resources_of h' s' = [(0, r + 3 * (int k + 1))]
           \<and> scores_of h' s' = [(0, r + 3 * (int k + 1))]
           \<and> length ags' = 1 \<and> (hist = None \<longrightarrow> hist' = None)"
proof (induction k arbitrary: t n h s ags hist r sc)
  case 0
  let ?s0 = "s\<lparr>turn := t\<rparr>"
  let ?h1 = "set_score (set_resource h ?s0 0 (r + 3)) ?s0 0 (r + 3)"
  let ?s1 = "?s0\<lparr>game_over := True, state_winner := Some 0\<rparr>"
  have n: "[t..<t + n] = t # [Suc t..<t + n]" using "0.prems"(10) by (simp add: upt_conv_Cons)
  have st: "resources_of h ?s0 = [(0, r)]" "scores_of h ?s0 = [(0, sc)]"
    "player_resources ?s0 \<noteq> player_scores ?s0" "genre ?s0 \<noteq> ''racing''"
    using "0.prems" by (simp_all add: heap_defs)
  from collect_player_step[OF sim env st(1-3) st(4) "0.prems"(7), of training]
  obtain ags' where ps: "player_step sim env training h ?s0 ags 0 = Inr (?h1, ?s1, ags')"
    and len: "length ags' = 1"
    using "0.prems"(9) by auto
  have pl: "player_loop sim env training [0..<num_players sim] (h, ?s0, ags) = Inr (?h1, ?s1, ags')"
    using "0.prems"(5) by (simp add: one ps)
  have tl: "turn_loop sim env training [t..<t + n] (h, s, ags, hist)
              = Inr (?h1, ?s1, ags',
                     case hist of None \<Rightarrow> None
                     | Some snaps \<Rightarrow> Some (snaps @ [capture_state_snapshot h ?s0]))"
    unfolding n by (simp add: pl Let_def)
  have res: "resources_of ?h1 ?s1 = [(0, r + 3)]" "scores_of ?h1 ?s1 = [(0, r + 3)]"
    using "0.prems"(1-3) by (simp_all add: heap_defs)
  show ?case
    using len res by (simp add: tl)
next
  case (Suc k)
  let ?s0 = "s\<lparr>turn := t\<rparr>"
  let ?h1 = "set_score (set_resource h ?s0 0 (r + 3)) ?s0 0 (r + 3)"
  let ?hist1 = "case hist of None \<Rightarrow> None
                     | Some snaps \<Rightarrow> Some (snaps @ [capture_state_snapshot h ?s0])"
  have n: "[t..<t + n] = t # [Suc t..<Suc t + (n - 1)]"
    using Suc.prems(10) by (simp add: upt_conv_Cons)
  have st: "resources_of h ?s0 = [(0, r)]" "scores_of h ?s0 = [(0, sc)]"
    "player_resources ?s0 \<noteq> player_scores ?s0" "genre ?s0 \<noteq> ''racing''"
    using Suc.prems by (simp_all add: heap_defs)
  have lt: "\<not> 30 \<le> r + 3" using Suc.prems(8) by simp
  from collect_player_step[OF sim env st(1-3) st(4) Suc.prems(7), of training]
  obtain ags' where ps: "player_step sim env training h ?s0 ags 0 = Inr (?h1, ?s0, ags')"
    and len: "length ags' = 1"
    using lt by auto
  have go: "\<not> game_over ?s0" using Suc.prems(6) by simp
  have pl: "player_loop sim env training [0..<num_players sim] (h, ?s0, ags) = Inr (?h1, ?s0, ags')"
    using Suc.prems(5) by (simp add: one ps)
  have tl: "turn_loop sim env training [t..<t + n] (h, s, ags, hist)
              = turn_loop sim env training [Suc t..<Suc t + (n - 1)] (?h1, ?s0, ags', ?hist1)"
    unfolding n using go by (simp add: pl Let_def)
  have inv: "resources_of ?h1 ?s0 = [(0, r + 3)]" "scores_of ?h1 ?s0 = [(0, r + 3)]"
    "player_resources ?s0 \<noteq> player_scores ?s0" "genre ?s0 \<noteq> ''racing''"
    "eliminated_players ?s0 = {}"
    using Suc.prems by (simp_all add: heap_defs)
  have bounds: "r + 3 + 3 * int k < 30" "30 \<le> r + 3 + 3 * (int k + 1)" "k < n - 1"
    using Suc.prems(8-10) by simp_all
  from Suc.IH[OF inv go len bounds, where t = "Suc t" and hist = ?hist1]
  obtain h' s' ags'' hist' where
    F: "turn_loop sim env training [Suc t..<Suc t + (n - 1)] (?h1, ?s0, ags', ?hist1)
       = Inr (h', s', ags'', hist')"
    "turn s' = Suc t + k" "state_winner s' = Some 0" "game_over s'"
    "resources_of h' s' = [(0, r + 3 + 3 * (int k + 1))]"
    "scores_of h' s' = [(0, r + 3 + 3 * (int k + 1))]"
    "length ags'' = 1" "?hist1 = None \<longrightarrow> hist' = None"
    by (elim exE conjE) (erule meta_allE meta_impE | assumption)+
  have 1: "turn_loop sim env training [t..<t + n] (h, s, ags, hist) = Inr (h', s', ags'', hist')"
    using F(1) by (simp only: tl)
  have 2: "turn s' = t + Suc k" using F(2) by simp
  have 3: "resources_of h' s' = [(0, r + 3 * (int (Suc k) + 1))]"
    using F(5) by (simp add: algebra_simps)
  have 4: "scores_of h' s' = [(0, r + 3 * (int (Suc k) + 1))]"
    using F(6) by (simp add: algebra_simps)
  have 5: "hist = None \<longrightarrow> hist' = None" using F(8) by simp
  show ?case
    using 1 2 F(3) F(4) 3 4 F(7) 5 by (intro exI conjI)
qed

lemma collect_game_outcome:
  assumes cfg: "cfg_genre cfg = Some ''resource_management''" "cfg_num_players cfg = Some 1"
      "cfg_win_type cfg = Some ''resource_collection''" "cfg_target_resources cfg = Some 30"
      "cfg_collection_rate cfg = Some 3"
    and env: "chosen_action env = (\<lambda>t player. ''collect'')"
    and len: "length ai_players = 1"
  shows "\<exists>h' ags' sim' res.
           simulate_game (GameSimulator cfg) env ai_players training render h
             = Inr (h', ags', sim', res)
           \<and> winner res = Some 0 \<and> turns res = 9
           \<and> final_resources res = [(0, 30)] \<and> final_scores res = [(0, 30)]"
proof -
  let ?sim = "GameSimulator cfg"
  have sim: "self_genre ?sim = ''resource_management''"
    "cfg_win_type (game_config ?sim) = Some ''resource_collection''"
    "cfg_target_resources (game_config ?sim) = Some 30"
    "cfg_collection_rate (game_config ?sim) = Some 3"
    and one: "num_players ?sim = 1" and mt: "max_turns ?sim = 100"
    by (simp_all add: GameSimulator_def cfg)
  obtain h0 s0 where init: "initialize_game_state ?sim h = (h0, s0)"
    by (cases "initialize_game_state ?sim h")
  have dicts: "resources_of h0 s0 = [(0, 0)]" "scores_of h0 s0 = [(0, 0)]"
    using initialize_game_state_dicts(2,3)[OF init] by (simp_all add: one)
  have s0: "player_resources s0 \<noteq> player_scores s0" "genre s0 \<noteq> ''racing''"
    "eliminated_players s0 = {}" "\<not> game_over s0"
    using init by (auto simp: initialize_game_state_def Let_def sim)
  have b: "0 + 3 * int 9 < (30::int)" "(30::int) \<le> 0 + 3 * (int 9 + 1)" "(9::nat) < 100"
    by simp_all
  from collect_turn_loop[OF sim one env dicts s0 len b,
      where t = 0 and training = training and hist = "if render then Some [] else None"]
  obtain h' s' ags' hist' where
    F: "turn_loop ?sim env training [0..<0 + 100]
          (h0, s0, ai_players, if render then Some [] else None) = Inr (h', s', ags', hist')"
    "turn s' = 0 + 9" "state_winner s' = Some 0"
    "resources_of h' s' = [(0, 0 + 3 * (int 9 + 1))]"
    "scores_of h' s' = [(0, 0 + 3 * (int 9 + 1))]"
    by (elim exE conjE) (erule meta_allE meta_impE | assumption)+
  have tl: "turn_loop ?sim env training [0..<max_turns ?sim]
          (h0, s0, ai_players, if render then Some [] else None) = Inr (h', s', ags', hist')"
    using F(1) by (simp add: mt)
  show ?thesis
    using F(2-5) by (simp add: simulate_game_def init tl Let_def)
qed

text \<open>
  C6, as stated: the result of the game would have the turn count 10. The player wins in
  its tenth move, and \<open>'turns'\<close> is \<open>state['turn']\<close>, the index of that turn counted
  from 0, which is 9.
\<close>

theorem collect_game_turn_count_counterexample:
  "map_sum id (turns \<circ> snd \<circ> snd \<circ> snd)
     (simulate_game (GameSimulator collect_config) always_collect
        [QLearningPlayer 0 (1 / 10) (9 / 10) (1 / 5)] True False empty_heap) = Inr 9
   \<and> map_sum id (turns \<circ> snd \<circ> snd \<circ> snd)
     (simulate_game (GameSimulator collect_config) always_collect
        [QLearningPlayer 0 (1 / 10) (9 / 10) (1 / 5)] True False empty_heap) \<noteq> Inr 10"
proof -
  have "\<exists>h' ags' sim' res.
           simulate_game (GameSimulator collect_config) always_collect
              [QLearningPlayer 0 (1 / 10) (9 / 10) (1 / 5)] True False empty_heap
             = Inr (h', ags', sim', res)
           \<and> winner res = Some 0 \<and> turns res = 9
           \<and> final_resources res = [(0, 30)] \<and> final_scores res = [(0, 30)]"
    by (rule collect_game_outcome)
       (simp_all add: collect_config_def default_config_def always_collect_def)
  then obtain h' ags' sim' res where
    "simulate_game (GameSimulator collect_config) always_collect
              [QLearningPlayer 0 (1 / 10) (9 / 10) (1 / 5)] True False empty_heap
             = Inr (h', ags', sim', res)" "turns res = 9"
    by (elim exE conjE)
  then show ?thesis by simp
qed

text \<open>
  C6, amended: for a resource\_management configuration with the win condition
  resource\_collection, target 30 and collection rate 3, and a single player whose
  agent chooses \<open>collect\<close> at every turn, \<open>simulate_game\<close> returns (with or without
  training and rendering, whatever the agent has learned before), the player is the
  winner with 30 resources, reached in its tenth move, and the turn count of the result
  is the index 9 of that turn.
\<close>

theorem collect_game_wins_at_turn_index_9:
  assumes "cfg_genre cfg = Some ''resource_management''" and "cfg_num_players cfg = Some 1"
    and "cfg_win_type cfg = Some ''resource_collection''"
    and "cfg_target_resources cfg = Some 30" and "cfg_collection_rate cfg = Some 3"
    and "chosen_action env = (\<lambda>t player. ''collect'')"
    and "length ai_players = 1"
  shows "\<exists>h' ags' sim' res.
           simulate_game (GameSimulator cfg) env ai_players training render h
             = Inr (h', ags', sim', res)
           \<and> winner res = Some 0 \<and> turns res = 9
           \<and> final_resources res = [(0, 30)] \<and> final_scores res = [(0, 30)]"
  using assms by (rule collect_game_outcome)

theorem collect_game_wins_at_turn_index_9_witness:
  "cfg_genre collect_config = Some ''resource_management''
   \<and> cfg_num_players collect_config = Some 1
   \<and> cfg_win_type collect_config = Some ''resource_collection''
   \<and> cfg_target_resources collect_config = Some 30
   \<and> cfg_collection_rate collect_config = Some 3
   \<and> chosen_action always_collect 0 0 = ''collect''
   \<and> length [QLearningPlayer 0 (1 / 10) (9 / 10) (1 / 5)] = 1
   \<and> map_sum id (winner \<circ> snd \<circ> snd \<circ> snd)
        (simulate_game (GameSimulator collect_config) always_collect
           [QLearningPlayer 0 (1 / 10) (9 / 10) (1 / 5)] False True empty_heap) = Inr (Some 0)
   \<and> map_sum id (turns \<circ> snd \<circ> snd \<circ> snd)
        (simulate_game (GameSimulator collect_config) always_collect
           [QLearningPlayer 0 (1 / 10) (9 / 10) (1 / 5)] False True empty_heap) = Inr 9"
proof -
  have c: "cfg_genre collect_config = Some ''resource_management''"
    "cfg_num_players collect_config = Some 1"
    "cfg_win_type collect_config = Some ''resource_collection''"
    "cfg_target_resources collect_config = Some 30"
    "cfg_collection_rate collect_config = Some 3"
    by (simp_all add: collect_config_def default_config_def)
  have e: "chosen_action always_collect = (\<lambda>t player. ''collect'')"
    by (simp add: always_collect_def)
  have l: "length [QLearningPlayer 0 (1 / 10) (9 / 10) (1 / 5)] = 1" by simp
  from collect_game_wins_at_turn_index_9[OF c e l, of False True empty_heap]
  obtain h' ags' sim' res where
    "simulate_game (GameSimulator collect_config) always_collect
              [QLearningPlayer 0 (1 / 10) (9 / 10) (1 / 5)] False True empty_heap
             = Inr (h', ags', sim', res)" "winner res = Some 0" "turns res = 9"
    by (elim exE conjE)
  then show ?thesis using c e by simp
qed


end
